theory Spec2Isabelle
  imports Complex_Main
begin

section \<open>Values handled by the model wrappers of Models/LLM/LLM.py\<close>

text \<open>
  The module wires three collaborators together: the data module (\<open>data_processor\<close>),
  the model module (\<open>CustomClassificationModel\<close>, \<open>peft\<close>, \<open>PEFTClassificationModel\<close>)
  and the trainer module (\<open>prepare_const\<close>, \<open>TrainerSingle\<close>, \<open>TrainerDDP\<close>,
  \<open>ddp_setup\<close>). What they compute is opaque here; what the wrappers hand to them, in
  which order, and what happens when one of them raises is the content of the embedding.
\<close>

datatype error =
    Raised string
  | ProcessRaisedException
  | ProcessTerminated

text \<open>
  The object a model constructor returns is kept as the constructor expression that built
  it: \<open>peft_model c\<close> is the attribute \<open>peft(checkpoint=c).model\<close>.
\<close>

datatype model_val =
    CustomClassificationModel string int
  | peft_model string
  | PEFTClassificationModel model_val int

text \<open>
  The \<open>final_model_path\<close> argument is either the formatted string itself or the object
  \<open>pathlib.Path\<close> builds from it. A path object is kept as the string it renders to
  (\<open>str(path)\<close>).
\<close>

datatype pathval =
    Str string
  | PosixPath string

subsection \<open>pathlib.Path on a POSIX system\<close>

text \<open>
  \<open>pathlib\<close> is the standard library's. Its constructor splits the string at \<open>/\<close>, drops
  the empty components and the components \<open>.\<close> (it keeps \<open>..\<close>), and keeps the root: a
  leading \<open>/\<close>, or \<open>//\<close> when the string starts with exactly two slashes. The path
  renders as the root followed by the components joined with \<open>/\<close>, and as \<open>.\<close> when there
  is neither root nor component. So \<open>Path('./a/b')\<close> renders as \<open>a/b\<close>.
\<close>

fun split_slash :: "string \<Rightarrow> string list" where
  "split_slash [] = [[]]"
| "split_slash (c # cs) =
     (if c = CHR ''/'' then [] # split_slash cs
      else (case split_slash cs of [] \<Rightarrow> [[c]] | part # parts \<Rightarrow> (c # part) # parts))"

fun join_slash :: "string list \<Rightarrow> string" where
  "join_slash [] = []"
| "join_slash [part] = part"
| "join_slash (part # next_part # parts) = part @ CHR ''/'' # join_slash (next_part # parts)"

definition posix_root :: "string \<Rightarrow> string" where
  "posix_root s =
     (if take 2 s = ''//'' \<and> take 3 s \<noteq> ''///'' then ''//''
      else if take 1 s = ''/'' then ''/''
      else [])"

definition Path :: "string \<Rightarrow> pathval" where
  "Path s =
     (let parts = filter (\<lambda>part. part \<noteq> [] \<and> part \<noteq> ''.'') (split_slash s);
          root = posix_root s
      in PosixPath (if root = [] \<and> parts = [] then ''.'' else root @ join_slash parts))"

record const =
  total_epochs :: int
  batch_size :: int
  lr :: real
  save_every :: int
  model_name :: string

definition prepare_const :: "int \<Rightarrow> int \<Rightarrow> real \<Rightarrow> int \<Rightarrow> string \<Rightarrow> const" where
  \<comment> \<open>Modelled from the spec: prepare_const lives in the trainer module; the configuration
      record holds epoch count, batch size, learning rate, checkpoint interval and model
      name, with the epoch count under the key \<open>total_epochs\<close>.\<close>
  "prepare_const num_epochs bs l every name =
     \<lparr>total_epochs = num_epochs, batch_size = bs, lr = l, save_every = every,
      model_name = name\<rparr>"

record ('df, 'col, 'ds) wrapper =
  df :: 'df
  checkpoint :: string
  X_series :: 'col
  y_series :: 'col
  train_dataset :: 'ds
  test_dataset :: 'ds
  val_dataset :: 'ds

subsection \<open>Formatting an integer inside an f-string\<close>

fun str_nat :: "nat \<Rightarrow> string" where
  "str_nat n =
     (if n < 10 then [''0123456789'' ! n]
      else str_nat (n div 10) @ [''0123456789'' ! (n mod 10)])"

declare str_nat.simps [simp del]

definition str_int :: "int \<Rightarrow> string" where
  "str_int i = (if i < 0 then CHR ''-'' # str_nat (nat (- i)) else str_nat (nat i))"

section \<open>Calls into the collaborators, and running a method body\<close>

datatype 'ds call =
    Call_CustomClassificationModel string int
  | Call_peft string
  | Call_PEFTClassificationModel model_val int
  | Call_print_model model_val
  | Call_prepare_const int int real int string
  | Call_ddp_setup int int
  | Call_TrainerSingle int model_val 'ds 'ds 'ds const
  | Call_TrainerDDP int model_val 'ds 'ds 'ds const
  | Call_train int
  | Call_test pathval
  | Call_destroy_process_group
  | Call_time
  | Call_print_runtime string
  | Call_spawn string "int \<times> int \<times> int \<times> real \<times> int" int

datatype process = Main_process | Worker_process nat

text \<open>
  Whether a call raises is decided by the environment, from the process, the calls that
  process has made so far, and the call itself.
\<close>

type_synonym 'ds env = "process \<Rightarrow> 'ds call list \<Rightarrow> 'ds call \<Rightarrow> error option"

type_synonym 'ds run = "'ds call list \<times> (error + unit)"

text \<open>
  A method body without \<open>try\<close> is a sequence of calls: each is made in turn, and the
  first one that raises ends the method with that exception. The trace holds every call
  made, the raising one included.
\<close>

fun exec :: "'ds env \<Rightarrow> process \<Rightarrow> 'ds call list \<Rightarrow> 'ds call list \<Rightarrow> 'ds run" where
  "exec env p made [] = (made, Inr ())"
| "exec env p made (c # cs) =
     (case env p made c of
        Some e \<Rightarrow> (made @ [c], Inl e)
      | None \<Rightarrow> exec env p (made @ [c]) cs)"

text \<open>
  \<open>torch.multiprocessing.spawn(fn, args, nprocs)\<close>, called with its default
  \<open>join=True\<close>: process \<open>i\<close> of \<open>nprocs\<close> runs \<open>fn(i, *args)\<close> and the caller waits.
  When every process returns, the call returns. When a process ends with an exception,
  the library terminates the processes that are still running and the call raises
  \<open>ProcessRaisedException\<close>. Each process has its own trace.

  Which processes are still running at that moment, and how far they have come, depends
  on timing. A schedule gives it: \<open>sched i = Some k\<close> says that process \<open>i\<close> is
  terminated once it has made \<open>k\<close> calls (which has no effect if it makes no more than
  \<open>k\<close>), \<open>sched i = None\<close> that it is left alone. A termination needs a process that
  ended with its own exception: if the schedule leaves no such process, the failing
  process of lowest rank is left alone.
\<close>

type_synonym schedule = "nat \<Rightarrow> nat option"

fun terminate_at :: "nat option \<Rightarrow> 'ds run \<Rightarrow> 'ds run" where
  "terminate_at None r = r"
| "terminate_at (Some k) (tr, res) =
     (if k < length tr then (take k tr, Inl ProcessTerminated) else (tr, res))"

definition raised :: "'ds run \<Rightarrow> bool" where
  "raised r = isl (snd r)"

definition fails_alone :: "schedule \<Rightarrow> (nat \<Rightarrow> 'ds run) \<Rightarrow> nat \<Rightarrow> bool" where
  "fails_alone sched fn i = (raised (fn i) \<and> terminate_at (sched i) (fn i) = fn i)"

definition mp_spawn ::
  "(nat \<Rightarrow> 'ds run) \<Rightarrow> int \<Rightarrow> schedule \<Rightarrow> 'ds run list \<times> error option" where
  "mp_spawn fn nprocs sched =
     (let ranks = [0..<nat nprocs]
      in if \<not> list_ex (\<lambda>i. raised (fn i)) ranks then (map fn ranks, None)
         else if list_ex (fails_alone sched fn) ranks
         then (map (\<lambda>i. terminate_at (sched i) (fn i)) ranks, Some ProcessRaisedException)
         else (map (\<lambda>i. if i = hd (filter (\<lambda>j. raised (fn j)) ranks) then fn i
                         else terminate_at (sched i) (fn i)) ranks,
               Some ProcessRaisedException))"

fun is_spawn :: "'ds call \<Rightarrow> bool" where
  "is_spawn (Call_spawn fn args nprocs) = True"
| "is_spawn c = False"

text \<open>In the parent the spawn call raises as the workers decide, every other call as the
  environment decides.\<close>

definition with_spawn :: "'ds env \<Rightarrow> error option \<Rightarrow> 'ds env" where
  "with_spawn env failure p made c = (if is_spawn c then failure else env p made c)"

record 'ds ddp_run =
  parent_run :: "'ds run"
  worker_runs :: "'ds run list"

definition spawning ::
  "'ds env \<Rightarrow> 'ds run list \<times> error option \<Rightarrow> 'ds call list \<Rightarrow> 'ds ddp_run" where
  "spawning env sp body =
     (let parent = exec (with_spawn env (snd sp)) Main_process [] body
      in \<lparr>parent_run = parent,
          worker_runs = (if list_ex is_spawn (fst parent) then fst sp else [])\<rparr>)"

section \<open>The constructors\<close>

text \<open>
  The data module and pandas are collaborators: each operation is a parameter that
  returns its result or raises. \<open>label_converter\<close> is a method of the processor object
  and may update it, so it returns the processor as well. The three datasets come back
  in the order the constructors unpack them: train, test, validation.
\<close>

record ('D, 'df, 'col, 'ds) data_module =
  data_processor :: "string \<Rightarrow> string \<Rightarrow> string \<Rightarrow> string \<Rightarrow> error + 'D"
  read_csv :: "string \<Rightarrow> string \<Rightarrow> error + 'df"
  label_converter :: "'D \<Rightarrow> error + 'df \<times> 'D"
  getitem :: "'df \<Rightarrow> string \<Rightarrow> error + 'col"
  prepare_dataset_BERT :: "'D \<Rightarrow> 'df \<Rightarrow> string \<Rightarrow> error + 'ds \<times> 'ds \<times> 'ds"
  prepare_dataset :: "'D \<Rightarrow> 'df \<Rightarrow> string \<Rightarrow> error + 'ds \<times> 'ds \<times> 'ds"

definition raise_or :: "error + 'a \<Rightarrow> ('a \<Rightarrow> error + 'b) \<Rightarrow> error + 'b" where
  "raise_or r k = (case r of Inl e \<Rightarrow> Inl e | Inr v \<Rightarrow> k v)"

definition BERT_init ::
  "('D, 'df, 'col, 'ds) data_module \<Rightarrow> string \<Rightarrow> string \<Rightarrow> string \<Rightarrow> int \<Rightarrow> real \<Rightarrow> real \<Rightarrow> int
     \<Rightarrow> string \<Rightarrow> error + ('df, 'col, 'ds) wrapper" where
  "BERT_init api data_path input_col output_col max_length test_size val_size seed encoding =
     raise_or (data_processor api data_path input_col output_col encoding) (\<lambda>D.
     raise_or (read_csv api data_path encoding) (\<lambda>df0.
     raise_or (label_converter api D) (\<lambda>(df1, D1).
     raise_or (getitem api df1 input_col) (\<lambda>X.
     raise_or (getitem api df1 output_col) (\<lambda>y.
     raise_or (prepare_dataset_BERT api D1 df1 ''bert-base-uncased'') (\<lambda>(tr, te, va).
     Inr \<lparr>df = df1, checkpoint = ''bert-base-uncased'', X_series = X, y_series = y,
          train_dataset = tr, test_dataset = te, val_dataset = va\<rparr>))))))"

definition GPT_init ::
  "('D, 'df, 'col, 'ds) data_module \<Rightarrow> string \<Rightarrow> string \<Rightarrow> string \<Rightarrow> int \<Rightarrow> real \<Rightarrow> real \<Rightarrow> int
     \<Rightarrow> string \<Rightarrow> error + ('df, 'col, 'ds) wrapper" where
  "GPT_init api data_path input_col output_col max_length test_size val_size seed encoding =
     raise_or (data_processor api data_path input_col output_col encoding) (\<lambda>D.
     raise_or (read_csv api data_path encoding) (\<lambda>df0.
     raise_or (label_converter api D) (\<lambda>(df1, D1).
     raise_or (getitem api df1 input_col) (\<lambda>X.
     raise_or (getitem api df1 output_col) (\<lambda>y.
     raise_or (prepare_dataset api D1 df1 ''gpt2'') (\<lambda>(tr, te, va).
     Inr \<lparr>df = df1, checkpoint = ''gpt2'', X_series = X, y_series = y,
          train_dataset = tr, test_dataset = te, val_dataset = va\<rparr>))))))"

definition Llama_init ::
  "('D, 'df, 'col, 'ds) data_module \<Rightarrow> string \<Rightarrow> string \<Rightarrow> string \<Rightarrow> int \<Rightarrow> real \<Rightarrow> real \<Rightarrow> int
     \<Rightarrow> string \<Rightarrow> error + ('df, 'col, 'ds) wrapper" where
  "Llama_init api data_path input_col output_col max_length test_size val_size seed encoding =
     raise_or (data_processor api data_path input_col output_col encoding) (\<lambda>D.
     raise_or (read_csv api data_path encoding) (\<lambda>df0.
     raise_or (label_converter api D) (\<lambda>(df1, D1).
     raise_or (getitem api df1 input_col) (\<lambda>X.
     raise_or (getitem api df1 output_col) (\<lambda>y.
     raise_or (prepare_dataset api D1 df1 ''meta-llama/Llama-2-7b-hf'') (\<lambda>(tr, te, va).
     Inr \<lparr>df = df1, checkpoint = ''meta-llama/Llama-2-7b-hf'', X_series = X, y_series = y,
          train_dataset = tr, test_dataset = te, val_dataset = va\<rparr>))))))"

section \<open>class BERT\<close>

definition run_BERT_body ::
  "('df, 'col, 'ds) wrapper \<Rightarrow> int \<Rightarrow> int \<Rightarrow> real \<Rightarrow> int \<Rightarrow> int \<Rightarrow> 'ds call list" where
  "run_BERT_body self epochs bs l every gpu_id =
     (let model = CustomClassificationModel (checkpoint self) 3;
          const = prepare_const epochs bs l every ''BERT''
      in [Call_CustomClassificationModel (checkpoint self) 3,
          Call_prepare_const epochs bs l every ''BERT'',
          Call_TrainerSingle gpu_id model (train_dataset self) (test_dataset self)
            (val_dataset self) const,
          Call_time,
          Call_train (total_epochs const),
          Call_test (Path (''./trained_'' @ model_name const @ ''/Nuclear_epoch''
            @ str_int (total_epochs const - 1) @ ''.pt'')),
          Call_time,
          Call_print_runtime ''''])"

definition run_BERT ::
  "'ds env \<Rightarrow> ('df, 'col, 'ds) wrapper \<Rightarrow> int \<Rightarrow> int \<Rightarrow> real \<Rightarrow> int \<Rightarrow> int \<Rightarrow> 'ds run" where
  "run_BERT env self epochs bs l every gpu_id =
     exec env Main_process [] (run_BERT_body self epochs bs l every gpu_id)"

definition BERT_DDP_body ::
  "('df, 'col, 'ds) wrapper \<Rightarrow> int \<Rightarrow> int \<Rightarrow> int \<Rightarrow> int \<Rightarrow> real \<Rightarrow> int \<Rightarrow> 'ds call list" where
  "BERT_DDP_body self rank world_size epochs bs l every =
     (let model = CustomClassificationModel (checkpoint self) 3;
          const = prepare_const epochs bs l every ''BERT_DDP''
      in [Call_CustomClassificationModel (checkpoint self) 3,
          Call_prepare_const epochs bs l every ''BERT_DDP'',
          Call_ddp_setup rank world_size,
          Call_TrainerDDP rank model (train_dataset self) (test_dataset self)
            (val_dataset self) const,
          Call_train (total_epochs const),
          Call_test (Str (''./trained_'' @ model_name const @ ''/Nuclear_epoch''
            @ str_int (total_epochs const - 1) @ ''.pt'')),
          Call_destroy_process_group])"

definition BERT_DDP ::
  "'ds env \<Rightarrow> process \<Rightarrow> ('df, 'col, 'ds) wrapper \<Rightarrow> int \<Rightarrow> int \<Rightarrow> int \<Rightarrow> int \<Rightarrow> real \<Rightarrow> int
     \<Rightarrow> 'ds run" where
  "BERT_DDP env p self rank world_size epochs bs l every =
     exec env p [] (BERT_DDP_body self rank world_size epochs bs l every)"

definition run_BERT_DDP ::
  "'ds env \<Rightarrow> schedule \<Rightarrow> ('df, 'col, 'ds) wrapper \<Rightarrow> int \<Rightarrow> int \<Rightarrow> int \<Rightarrow> real \<Rightarrow> int
     \<Rightarrow> 'ds ddp_run" where
  "run_BERT_DDP env sched self world_size epochs bs l every =
     spawning env
       (mp_spawn (\<lambda>i. BERT_DDP env (Worker_process i) self (int i) world_size epochs bs l every)
          world_size sched)
       [Call_time,
        Call_spawn ''BERT_DDP'' (world_size, epochs, bs, l, every) world_size,
        Call_time,
        Call_print_runtime '''']"

section \<open>class GPT\<close>

definition run_GPT_body ::
  "('df, 'col, 'ds) wrapper \<Rightarrow> int \<Rightarrow> int \<Rightarrow> real \<Rightarrow> int \<Rightarrow> int \<Rightarrow> 'ds call list" where
  "run_GPT_body self epochs bs l every gpu_id =
     (let model = CustomClassificationModel (checkpoint self) 3;
          const = prepare_const epochs bs l every ''GPT2''
      in [Call_CustomClassificationModel (checkpoint self) 3,
          Call_prepare_const epochs bs l every ''GPT2'',
          Call_TrainerSingle gpu_id model (train_dataset self) (test_dataset self)
            (val_dataset self) const,
          Call_time,
          Call_train (total_epochs const),
          Call_test (Path (''./trained_'' @ model_name const @ ''/Nuclear_epoch''
            @ str_int (total_epochs const - 1) @ ''.pt'')),
          Call_time,
          Call_print_runtime ''''])"

definition run_GPT ::
  "'ds env \<Rightarrow> ('df, 'col, 'ds) wrapper \<Rightarrow> int \<Rightarrow> int \<Rightarrow> real \<Rightarrow> int \<Rightarrow> int \<Rightarrow> 'ds run" where
  "run_GPT env self epochs bs l every gpu_id =
     exec env Main_process [] (run_GPT_body self epochs bs l every gpu_id)"

definition GPT_DDP_body ::
  "('df, 'col, 'ds) wrapper \<Rightarrow> int \<Rightarrow> int \<Rightarrow> int \<Rightarrow> int \<Rightarrow> real \<Rightarrow> int \<Rightarrow> 'ds call list" where
  "GPT_DDP_body self rank world_size epochs bs l every =
     (let model = CustomClassificationModel (checkpoint self) 3;
          const = prepare_const epochs bs l every ''GPT2''
      in [Call_CustomClassificationModel (checkpoint self) 3,
          Call_prepare_const epochs bs l every ''GPT2'',
          Call_ddp_setup rank world_size,
          Call_TrainerDDP rank model (train_dataset self) (test_dataset self)
            (val_dataset self) const,
          Call_train (total_epochs const),
          Call_test (Path (''./trained_'' @ model_name const @ ''/Nuclear_epoch''
            @ str_int (total_epochs const - 1) @ ''.pt'')),
          Call_destroy_process_group])"

definition GPT_DDP ::
  "'ds env \<Rightarrow> process \<Rightarrow> ('df, 'col, 'ds) wrapper \<Rightarrow> int \<Rightarrow> int \<Rightarrow> int \<Rightarrow> int \<Rightarrow> real \<Rightarrow> int
     \<Rightarrow> 'ds run" where
  "GPT_DDP env p self rank world_size epochs bs l every =
     exec env p [] (GPT_DDP_body self rank world_size epochs bs l every)"

definition run_GPT_DDP ::
  "'ds env \<Rightarrow> schedule \<Rightarrow> ('df, 'col, 'ds) wrapper \<Rightarrow> int \<Rightarrow> int \<Rightarrow> int \<Rightarrow> real \<Rightarrow> int
     \<Rightarrow> 'ds ddp_run" where
  "run_GPT_DDP env sched self world_size epochs bs l every =
     spawning env
       (mp_spawn (\<lambda>i. GPT_DDP env (Worker_process i) self (int i) world_size epochs bs l every)
          world_size sched)
       [Call_time,
        Call_spawn ''GPT_DDP'' (world_size, epochs, bs, l, every) world_size,
        Call_time,
        Call_print_runtime '''']"

section \<open>class Llama\<close>

definition run_LLAMA_body ::
  "('df, 'col, 'ds) wrapper \<Rightarrow> int \<Rightarrow> int \<Rightarrow> real \<Rightarrow> int \<Rightarrow> int \<Rightarrow> 'ds call list" where
  "run_LLAMA_body self epochs bs l every gpu_id =
     (let model = PEFTClassificationModel (peft_model (checkpoint self)) 3;
          const = prepare_const epochs bs l every ''Llama''
      in [Call_peft (checkpoint self),
          Call_PEFTClassificationModel (peft_model (checkpoint self)) 3,
          Call_print_model model,
          Call_prepare_const epochs bs l every ''Llama'',
          Call_TrainerSingle gpu_id model (train_dataset self) (test_dataset self)
            (val_dataset self) const,
          Call_time,
          Call_train (total_epochs const),
          Call_test (Str (''./trained_'' @ model_name const @ ''/Nuclear_epoch4.pt'')),
          Call_time,
          Call_print_runtime '' sec''])"

definition run_LLAMA ::
  "'ds env \<Rightarrow> ('df, 'col, 'ds) wrapper \<Rightarrow> int \<Rightarrow> int \<Rightarrow> real \<Rightarrow> int \<Rightarrow> int \<Rightarrow> 'ds run" where
  "run_LLAMA env self epochs bs l every gpu_id =
     exec env Main_process [] (run_LLAMA_body self epochs bs l every gpu_id)"

section \<open>The methods each class defines\<close>

datatype family = BERT | GPT | Llama

fun class_methods :: "family \<Rightarrow> string list" where
  "class_methods BERT = [''__init__'', ''run_BERT'', ''BERT_DDP'', ''run_BERT_DDP'']"
| "class_methods GPT = [''__init__'', ''run_GPT'', ''GPT_DDP'', ''run_GPT_DDP'']"
| "class_methods Llama = [''__init__'', ''run_LLAMA'']"

text \<open>The specification's names for the two operations of a family: \<open>run_<NAME>\<close> and
  \<open>run_<NAME>_DDP\<close>.\<close>

fun spec_NAME :: "family \<Rightarrow> string" where
  "spec_NAME BERT = ''BERT''"
| "spec_NAME GPT = ''GPT''"
| "spec_NAME Llama = ''LLAMA''"

definition spec_run_name :: "family \<Rightarrow> string" where
  "spec_run_name f = ''run_'' @ spec_NAME f"

definition spec_run_DDP_name :: "family \<Rightarrow> string" where
  "spec_run_DDP_name f = ''run_'' @ spec_NAME f @ ''_DDP''"

text \<open>The specification's checkpoint path: \<open>trained_<model_name>/Nuclear_epoch<epoch_index>.pt\<close>.\<close>

definition spec_checkpoint_path :: "string \<Rightarrow> int \<Rightarrow> string" where
  "spec_checkpoint_path name epoch_index =
     ''trained_'' @ name @ ''/Nuclear_epoch'' @ str_int epoch_index @ ''.pt''"

section \<open>Reading a trace\<close>

fun test_paths :: "'ds call list \<Rightarrow> pathval list" where
  "test_paths [] = []"
| "test_paths (Call_test path # cs) = path # test_paths cs"
| "test_paths (c # cs) = test_paths cs"

text \<open>The class counts handed to the two classification-model constructors.\<close>

fun classes_built :: "'ds call list \<Rightarrow> int list" where
  "classes_built [] = []"
| "classes_built (Call_CustomClassificationModel ck n # cs) = n # classes_built cs"
| "classes_built (Call_PEFTClassificationModel m n # cs) = n # classes_built cs"
| "classes_built (c # cs) = classes_built cs"

fun uses_peft :: "'ds call \<Rightarrow> bool" where
  "uses_peft (Call_peft ck) = True"
| "uses_peft (Call_PEFTClassificationModel m n) = True"
| "uses_peft c = False"

text \<open>The two calls of a worker that set the process group up and build its trainer.\<close>

fun is_setup_or_trainer :: "'ds call \<Rightarrow> bool" where
  "is_setup_or_trainer (Call_ddp_setup rank world_size) = True"
| "is_setup_or_trainer (Call_TrainerDDP gpu_id model trainset testset valset const) = True"
| "is_setup_or_trainer c = False"

section \<open>Sample inputs\<close>

definition sample_BERT :: "(unit, unit, string) wrapper" where
  "sample_BERT =
     \<lparr>df = (), checkpoint = ''bert-base-uncased'', X_series = (), y_series = (),
      train_dataset = ''train'', test_dataset = ''test'', val_dataset = ''val''\<rparr>"

definition sample_GPT :: "(unit, unit, string) wrapper" where
  "sample_GPT =
     \<lparr>df = (), checkpoint = ''gpt2'', X_series = (), y_series = (),
      train_dataset = ''train'', test_dataset = ''test'', val_dataset = ''val''\<rparr>"

definition sample_Llama :: "(unit, unit, string) wrapper" where
  "sample_Llama =
     \<lparr>df = (), checkpoint = ''meta-llama/Llama-2-7b-hf'', X_series = (), y_series = (),
      train_dataset = ''train'', test_dataset = ''test'', val_dataset = ''val''\<rparr>"

definition sample_data_module :: "(unit, unit, unit, string) data_module" where
  "sample_data_module =
     \<lparr>data_processor = (\<lambda>path input_col output_col encoding. Inr ()),
      read_csv = (\<lambda>path encoding. Inr ()),
      label_converter = (\<lambda>D. Inr ((), D)),
      getitem = (\<lambda>frame col. Inr ()),
      prepare_dataset_BERT = (\<lambda>D frame ck. Inr (''train'', ''test'', ''val'')),
      prepare_dataset = (\<lambda>D frame ck. Inr (''train'', ''test'', ''val''))\<rparr>"

definition never_raises :: "string env" where
  "never_raises p made c = None"

fun is_test :: "'ds call \<Rightarrow> bool" where
  "is_test (Call_test path) = True"
| "is_test c = False"

definition test_raises :: "string env" where
  "test_raises p made c = (if is_test c then Some (Raised ''FileNotFoundError'') else None)"


text \<open>Worker 0 fails in \<open>test\<close>; worker 1 is still inside \<open>train\<close>, its fifth call, when the
  library terminates it.\<close>

definition test_raises_in_worker_0 :: "string env" where
  "test_raises_in_worker_0 p made c =
     (if p = Worker_process 0 \<and> is_test c then Some (Raised ''FileNotFoundError'') else None)"


definition worker_1_in_train :: schedule where
  "worker_1_in_train i = (if i = 1 then Some 5 else None)"

section \<open>Facts about running a body\<close>

lemma exec_append:
  "exec env p made (xs @ ys) =
     (case exec env p made xs of (tr, Inl e) \<Rightarrow> (tr, Inl e) | (tr, Inr u) \<Rightarrow> exec env p tr ys)"
  by (induction xs arbitrary: made) (auto split: option.splits)

lemma exec_normal: "snd (exec env p made cs) = Inr () \<Longrightarrow> fst (exec env p made cs) = made @ cs"
  by (induction cs arbitrary: made) (auto split: option.splits)

lemma exec_trace: "\<exists>k\<le>length cs. fst (exec env p made cs) = made @ take k cs"
proof (induction cs arbitrary: made)
  case Nil
  then show ?case by simp
next
  case (Cons x xs)
  show ?case
  proof (cases "env p made x")
    case None
    from Cons.IH[of "made @ [x]"] obtain k
      where "k \<le> length xs" "fst (exec env p (made @ [x]) xs) = (made @ [x]) @ take k xs"
      by blast
    then show ?thesis using None by (intro exI[of _ "Suc k"]) simp
  next
    case (Some e)
    then show ?thesis by (intro exI[of _ "Suc 0"]) simp
  qed
qed

lemma exec_raise_short:
  "snd (exec env p made cs) = Inl e \<Longrightarrow>
     \<exists>k<length cs. fst (exec env p made cs) = made @ take (Suc k) cs"
proof (induction cs arbitrary: made)
  case Nil
  then show ?case by simp
next
  case (Cons x xs)
  show ?case
  proof (cases "env p made x")
    case None
    with Cons.prems have "snd (exec env p (made @ [x]) xs) = Inl e" by simp
    from Cons.IH[OF this] obtain k
      where "k < length xs" "fst (exec env p (made @ [x]) xs) = (made @ [x]) @ take (Suc k) xs"
      by blast
    then show ?thesis using None by (intro exI[of _ "Suc k"]) simp
  next
    case (Some e')
    then show ?thesis by (intro exI[of _ "0"]) simp
  qed
qed

lemma exec_propagates:
  "exec env p made cs = (tr, res) \<Longrightarrow> tr = made @ pre @ c # post
    \<Longrightarrow> env p (made @ pre) c = Some e \<Longrightarrow> res = Inl e \<and> post = []"
proof (induction cs arbitrary: made pre)
  case Nil
  then show ?case by simp
next
  case (Cons x xs)
  show ?case
  proof (cases "env p made x")
    case None
    with Cons.prems(1) have ex: "exec env p (made @ [x]) xs = (tr, res)" by simp
    from exec_trace[of xs env p "made @ [x]"] ex obtain k where tr: "tr = made @ x # take k xs"
      by auto
    show ?thesis
    proof (cases pre)
      case Nil
      with tr Cons.prems(2) have "c = x" by simp
      with Nil Cons.prems(3) None show ?thesis by simp
    next
      case pre: (Cons y ys)
      with tr Cons.prems(2) have "y = x" by simp
      with pre Cons.prems(2,3)
      have "tr = (made @ [x]) @ ys @ c # post" "env p ((made @ [x]) @ ys) c = Some e"
        by simp_all
      from Cons.IH[OF ex this] show ?thesis .
    qed
  next
    case (Some e')
    with Cons.prems show ?thesis by (cases pre) auto
  qed
qed

text \<open>A call that is followed by another one in the trace returned normally.\<close>

lemma exec_earlier_returned:
  assumes "fst (exec env p [] cs) = pre @ c # d # post"
  shows "env p pre c = None"
proof (cases "env p pre c")
  case None
  then show ?thesis .
next
  case (Some e)
  obtain tr res where ex: "exec env p [] cs = (tr, res)" by (cases "exec env p [] cs")
  with assms have "tr = [] @ pre @ c # (d # post)" by simp
  from exec_propagates[OF ex this] Some show ?thesis by simp
qed

lemma exec_trace_is_prefix:
  assumes "fst (exec env p [] cs) = pre @ c # post"
  shows "\<exists>rest. cs = pre @ c # rest"
proof -
  from exec_trace[of cs env p "[]"] obtain k where "fst (exec env p [] cs) = take k cs" by auto
  with assms have "take k cs = pre @ c # post" by simp
  then have "cs = (pre @ c # post) @ drop k cs" by (metis append_take_drop_id)
  then have "cs = pre @ c # (post @ drop k cs)" by simp
  then show ?thesis by blast
qed

lemma call_before_returned:
  assumes body: "\<And>pre rest. body = pre @ c # rest \<Longrightarrow> \<exists>pre0. pre = pre0 @ [b]"
    and tr: "fst (exec env p [] body) = pre @ c # post"
  shows "\<exists>pre0. pre = pre0 @ [b] \<and> env p pre0 b = None"
proof -
  from exec_trace_is_prefix[OF tr] obtain rest where "body = pre @ c # rest" by blast
  from body[OF this] obtain pre0 where pre: "pre = pre0 @ [b]" by blast
  with tr have "fst (exec env p [] body) = pre0 @ b # c # post" by simp
  from exec_earlier_returned[OF this] pre show ?thesis by blast
qed

lemma count_take_zero: "count_list xs a = 0 \<Longrightarrow> count_list (take k xs) a = 0"
  by (metis count_list_0_iff in_set_takeD)

lemma exec_before_last:
  "fst (exec env p [] (xs @ [d])) =
     (if snd (exec env p [] xs) = Inr () then xs @ [d] else fst (exec env p [] xs))"
proof (cases "exec env p [] xs")
  case (Pair tr res)
  show ?thesis
  proof (cases res)
    case (Inl e)
    with Pair show ?thesis by (simp add: exec_append)
  next
    case (Inr u)
    with Pair have "snd (exec env p [] xs) = Inr ()" by simp
    from exec_normal[OF this] Pair have "tr = xs" by simp
    with Pair Inr show ?thesis by (auto simp: exec_append split: option.splits)
  qed
qed

lemma exec_count_absent:
  assumes "count_list xs d = 0"
  shows "count_list (fst (exec env p [] xs)) d = 0"
proof -
  from exec_trace[of xs env p "[]"] obtain k where "fst (exec env p [] xs) = take k xs" by auto
  with assms show ?thesis by (simp add: count_take_zero)
qed

lemma teardown_count:
  assumes "body = xs @ [d]" "count_list xs d = 0"
  shows "count_list (fst (exec env p [] body)) d
           = (if snd (exec env p [] xs) = Inr () then 1 else 0)"
  using assms exec_count_absent[OF assms(2), of env p] by (simp add: exec_before_last)

lemma BERT_DDP_body_split:
  "BERT_DDP_body self rank ws epochs bs l every
     = butlast (BERT_DDP_body self rank ws epochs bs l every) @ [Call_destroy_process_group]"
  "count_list (butlast (BERT_DDP_body self rank ws epochs bs l every))
     Call_destroy_process_group = 0"
  by (simp_all add: BERT_DDP_body_def Let_def)

lemma GPT_DDP_body_split:
  "GPT_DDP_body self rank ws epochs bs l every
     = butlast (GPT_DDP_body self rank ws epochs bs l every) @ [Call_destroy_process_group]"
  "count_list (butlast (GPT_DDP_body self rank ws epochs bs l every))
     Call_destroy_process_group = 0"
  by (simp_all add: GPT_DDP_body_def Let_def)

lemma BERT_DDP_body_TrainerDDP:
  "BERT_DDP_body self rank ws epochs bs l every = pre @ Call_TrainerDDP g m tr te va k # rest
   \<Longrightarrow> pre = [Call_CustomClassificationModel (checkpoint self) 3,
             Call_prepare_const epochs bs l every ''BERT_DDP'',
             Call_ddp_setup rank ws]"
  by (auto simp: BERT_DDP_body_def Let_def Cons_eq_append_conv)

lemma GPT_DDP_body_TrainerDDP:
  "GPT_DDP_body self rank ws epochs bs l every = pre @ Call_TrainerDDP g m tr te va k # rest
   \<Longrightarrow> pre = [Call_CustomClassificationModel (checkpoint self) 3,
             Call_prepare_const epochs bs l every ''GPT2'',
             Call_ddp_setup rank ws]"
  by (auto simp: GPT_DDP_body_def Let_def Cons_eq_append_conv)

lemma run_LLAMA_body_Trainer:
  "run_LLAMA_body self epochs bs l every gpu_id = pre @ Call_TrainerSingle g m tr te va k # rest
   \<Longrightarrow> pre = [Call_peft (checkpoint self),
             Call_PEFTClassificationModel (peft_model (checkpoint self)) 3,
             Call_print_model (PEFTClassificationModel (peft_model (checkpoint self)) 3),
             Call_prepare_const epochs bs l every ''Llama'']
       \<and> m = PEFTClassificationModel (peft_model (checkpoint self)) 3"
  by (auto simp: run_LLAMA_body_def Let_def Cons_eq_append_conv)

lemma run_BERT_body_Trainer:
  "run_BERT_body self epochs bs l every gpu_id = pre @ Call_TrainerSingle g m tr te va k # rest
   \<Longrightarrow> pre = [Call_CustomClassificationModel (checkpoint self) 3,
             Call_prepare_const epochs bs l every ''BERT'']
       \<and> m = CustomClassificationModel (checkpoint self) 3"
  by (auto simp: run_BERT_body_def Let_def Cons_eq_append_conv)

lemma run_GPT_body_Trainer:
  "run_GPT_body self epochs bs l every gpu_id = pre @ Call_TrainerSingle g m tr te va k # rest
   \<Longrightarrow> pre = [Call_CustomClassificationModel (checkpoint self) 3,
             Call_prepare_const epochs bs l every ''GPT2'']
       \<and> m = CustomClassificationModel (checkpoint self) 3"
  by (auto simp: run_GPT_body_def Let_def Cons_eq_append_conv)

lemma filter_take_nil: "filter P xs = [] \<Longrightarrow> filter P (take k xs) = []"
  by (metis filter_empty_conv in_set_takeD)

lemma exec_filter_absent:
  assumes "filter P cs = []"
  shows "filter P (fst (exec env p [] cs)) = []"
proof -
  from exec_trace[of cs env p "[]"] obtain k where "fst (exec env p [] cs) = take k cs" by auto
  with assms show ?thesis by (simp add: filter_take_nil)
qed

subsection \<open>Spawning\<close>


lemma spawning_reached:
  assumes "env Main_process [] Call_time = None"
  shows "worker_runs (spawning env sp [Call_time, Call_spawn nm args n, Call_time, Call_print_runtime s])
           = fst sp"
  using assms by (simp add: spawning_def with_spawn_def Let_def split: option.splits)


lemma spawning_printed:
  assumes "Call_print_runtime s \<in> set (fst (parent_run
             (spawning env sp [Call_time, Call_spawn nm args n, Call_time, Call_print_runtime s])))"
  shows "fst (parent_run (spawning env sp [Call_time, Call_spawn nm args n, Call_time, Call_print_runtime s]))
           = [Call_time, Call_spawn nm args n, Call_time, Call_print_runtime s]
         \<and> snd sp = None \<and> env Main_process [] Call_time = None"
  using assms by (auto simp add: spawning_def with_spawn_def Let_def split: option.splits)

lemma exec_worker_split:
  "exec env p [] (xs @ [d]) =
     (if snd (exec env p [] xs) = Inr () then exec env p xs [d] else exec env p [] xs)"
proof (cases "exec env p [] xs")
  case (Pair tr res)
  show ?thesis
  proof (cases res)
    case (Inl e)
    with Pair show ?thesis by (simp add: exec_append)
  next
    case (Inr u)
    with Pair have "snd (exec env p [] xs) = Inr ()" by simp
    from exec_normal[OF this] Pair have "tr = xs" by simp
    with Pair Inr show ?thesis by (simp add: exec_append)
  qed
qed

lemma exec_setup_trainer:
  assumes body: "body = c1 # c2 # s # t # rest"
    and s: "is_setup_or_trainer s" and t: "is_setup_or_trainer t"
    and c: "\<not> is_setup_or_trainer c1" "\<not> is_setup_or_trainer c2"
    and r: "filter is_setup_or_trainer rest = []"
  shows "filter is_setup_or_trainer (fst (exec env p [] body))
       = (if snd (exec env p [] (take 2 body)) = Inr ()
          then (if env p (take 2 body) s = None then [s, t] else [s])
          else [])"
proof (cases "env p [] c1")
  case (Some e)
  with c body show ?thesis by simp
next
  case n1: None
  show ?thesis
  proof (cases "env p [c1] c2")
    case (Some e)
    with n1 c body show ?thesis by simp
  next
    case n2: None
    show ?thesis
    proof (cases "env p [c1, c2] s")
      case (Some e)
      with n1 n2 c s body show ?thesis by simp
    next
      case n3: None
      have "\<exists>k. fst (exec env p [c1, c2, s, t] rest) = [c1, c2, s, t] @ take k rest"
        using exec_trace[of rest env p "[c1, c2, s, t]"] by blast
      then obtain k where k: "fst (exec env p [c1, c2, s, t] rest) = [c1, c2, s, t] @ take k rest"
        by blast
      from r have "filter is_setup_or_trainer (take k rest) = []"
        by (rule filter_take_nil)
      with k c s t have f: "filter is_setup_or_trainer (fst (exec env p [c1, c2, s, t] rest)) = [s, t]"
        by simp
      show ?thesis
      proof (cases "env p [c1, c2, s] t")
        case (Some e)
        with n1 n2 n3 c s t body show ?thesis by simp
      next
        case None
        with n1 n2 n3 f body show ?thesis by simp
      qed
    qed
  qed
qed

lemma not_isl_unit: "\<not> isl (r :: error + unit) \<Longrightarrow> r = Inr ()"
  by (cases r) simp_all

lemma terminate_at_prefix: "\<exists>k. fst (terminate_at t r) = take k (fst r)"
proof (cases t)
  case None
  then show ?thesis by (metis terminate_at.simps(1) take_all order_refl)
next
  case (Some k)
  then show ?thesis by (cases r) (auto intro: exI[of _ k] exI[of _ "length (fst r)"])
qed

lemma mp_spawn_length: "length (fst (mp_spawn fn n sched)) = nat n"
  by (simp add: mp_spawn_def Let_def)

lemma mp_spawn_nth:
  assumes "i < nat n"
  shows "fst (mp_spawn fn n sched) ! i = fn i
         \<or> fst (mp_spawn fn n sched) ! i = terminate_at (sched i) (fn i)"
  using assms by (simp add: mp_spawn_def Let_def)

lemma mp_spawn_prefix:
  assumes "i < nat n"
  shows "\<exists>k. fst (fst (mp_spawn fn n sched) ! i) = take k (fst (fn i))"
proof -
  from mp_spawn_nth[OF assms, of fn sched] show ?thesis
  proof
    assume "fst (mp_spawn fn n sched) ! i = fn i"
    then show ?thesis by (metis take_all order_refl)
  next
    assume "fst (mp_spawn fn n sched) ! i = terminate_at (sched i) (fn i)"
    with terminate_at_prefix[of "sched i" "fn i"] show ?thesis by simp
  qed
qed

lemma mp_spawn_all_return:
  assumes "list_all (\<lambda>i. snd (fn i) = Inr ()) [0..<nat n]"
  shows "mp_spawn fn n sched = (map fn [0..<nat n], None)"
proof -
  from assms have "\<not> list_ex (\<lambda>i. raised (fn i)) [0..<nat n]"
    by (auto simp: list_all_iff list_ex_iff raised_def)
  then show ?thesis by (simp add: mp_spawn_def Let_def)
qed

lemma mp_spawn_none:
  assumes "snd (mp_spawn fn n sched) = None"
  shows "fst (mp_spawn fn n sched) = map (\<lambda>i. (fst (fn i), Inr ())) [0..<nat n]"
proof -
  from assms have no: "\<not> list_ex (\<lambda>i. raised (fn i)) [0..<nat n]"
    by (simp add: mp_spawn_def Let_def split: if_splits)
  then have "\<And>i. i < nat n \<Longrightarrow> \<not> isl (snd (fn i))"
    by (auto simp: list_ex_iff raised_def)
  then have "\<And>i. i < nat n \<Longrightarrow> snd (fn i) = Inr ()"
    by (rule not_isl_unit)
  then have "\<And>i. i < nat n \<Longrightarrow> fn i = (fst (fn i), Inr ())"
    by (metis prod.collapse)
  with no show ?thesis by (simp add: mp_spawn_def Let_def)
qed



lemma BERT_DDP_normal:
  "snd (BERT_DDP env p self rank ws epochs bs l every) = Inr () \<Longrightarrow>
   fst (BERT_DDP env p self rank ws epochs bs l every) = BERT_DDP_body self rank ws epochs bs l every"
  unfolding BERT_DDP_def by (drule exec_normal) simp

lemma GPT_DDP_normal:
  "snd (GPT_DDP env p self rank ws epochs bs l every) = Inr () \<Longrightarrow>
   fst (GPT_DDP env p self rank ws epochs bs l every) = GPT_DDP_body self rank ws epochs bs l every"
  unfolding GPT_DDP_def by (drule exec_normal) simp

lemma BERT_DDP_prefix:
  "\<exists>k. fst (BERT_DDP env p self rank ws epochs bs l every)
         = take k (BERT_DDP_body self rank ws epochs bs l every)"
  unfolding BERT_DDP_def
  using exec_trace[of "BERT_DDP_body self rank ws epochs bs l every" env p "[]"] by auto

lemma GPT_DDP_prefix:
  "\<exists>k. fst (GPT_DDP env p self rank ws epochs bs l every)
         = take k (GPT_DDP_body self rank ws epochs bs l every)"
  unfolding GPT_DDP_def
  using exec_trace[of "GPT_DDP_body self rank ws epochs bs l every" env p "[]"] by auto

lemma spawn_contract:
  fixes fn :: "nat \<Rightarrow> 'ds run" and body :: "nat \<Rightarrow> 'ds call list"
  assumes d: "d = spawning env (mp_spawn fn n sched)
                    [Call_time, Call_spawn nm args n, Call_time, Call_print_runtime s]"
    and normal: "\<And>i. snd (fn i) = Inr () \<Longrightarrow> fst (fn i) = body i"
    and prefix: "\<And>i. \<exists>k. fst (fn i) = take k (body i)"
    and n: "1 \<le> n"
  shows "(env Main_process [] Call_time = None
            \<longrightarrow> int (length (worker_runs d)) = n
              \<and> (\<forall>i<nat n. \<exists>k. fst (worker_runs d ! i) = take k (body i)))
       \<and> (env Main_process [] Call_time = None
            \<and> list_all (\<lambda>i. snd (fn i) = Inr ()) [0..<nat n]
            \<longrightarrow> worker_runs d = map fn [0..<nat n])
       \<and> (Call_print_runtime s \<in> set (fst (parent_run d))
            \<longrightarrow> fst (parent_run d) = [Call_time, Call_spawn nm args n, Call_time, Call_print_runtime s]
              \<and> worker_runs d = map (\<lambda>i. (body i, Inr ())) [0..<nat n])
       \<and> (env Main_process [] Call_time = None
            \<and> list_all (\<lambda>i. snd (fn i) = Inr ()) [0..<nat n]
            \<and> env Main_process [Call_time, Call_spawn nm args n] Call_time = None
            \<longrightarrow> fst (parent_run d)
                  = [Call_time, Call_spawn nm args n, Call_time, Call_print_runtime s])"
proof (intro conjI impI allI)
  assume t: "env Main_process [] Call_time = None"
  from spawning_reached[of env, OF t] d
  have w: "worker_runs d = fst (mp_spawn fn n sched)" by simp
  with n show "int (length (worker_runs d)) = n" by (simp add: mp_spawn_length)
  fix i assume i: "i < nat n"
  from mp_spawn_prefix[OF i, of fn sched] w obtain k
    where "fst (worker_runs d ! i) = take k (fst (fn i))" by auto
  moreover from prefix obtain k' where "fst (fn i) = take k' (body i)" by blast
  ultimately have "fst (worker_runs d ! i) = take (min k k') (body i)" by simp
  then show "\<exists>k. fst (worker_runs d ! i) = take k (body i)" by blast
next
  assume a: "env Main_process [] Call_time = None
            \<and> list_all (\<lambda>i. snd (fn i) = Inr ()) [0..<nat n]"
  then have t: "env Main_process [] Call_time = None" by simp
  from spawning_reached[of env, OF t] d
  have "worker_runs d = fst (mp_spawn fn n sched)" by simp
  with a show "worker_runs d = map fn [0..<nat n]" by (simp add: mp_spawn_all_return)
next
  assume pr: "Call_print_runtime s \<in> set (fst (parent_run d))"
  from spawning_printed[OF pr[unfolded d]] d
  have tr: "fst (parent_run d) = [Call_time, Call_spawn nm args n, Call_time, Call_print_runtime s]"
    and none: "snd (mp_spawn fn n sched) = None" and t: "env Main_process [] Call_time = None"
    by simp_all
  from tr show "fst (parent_run d) = [Call_time, Call_spawn nm args n, Call_time, Call_print_runtime s]" .
  from spawning_reached[of env, OF t] d have "worker_runs d = fst (mp_spawn fn n sched)" by simp
  also from mp_spawn_none[OF none] have "\<dots> = map (\<lambda>i. (fst (fn i), Inr ())) [0..<nat n]" .
  also have "\<dots> = map (\<lambda>i. (body i, Inr ())) [0..<nat n]"
  proof (rule map_cong[OF refl])
    fix i assume "i \<in> set [0..<nat n]"
    then have "i < nat n" by simp
    from none have "\<not> list_ex (\<lambda>i. raised (fn i)) [0..<nat n]"
      by (simp add: mp_spawn_def Let_def split: if_splits)
    with \<open>i < nat n\<close> have "\<not> isl (snd (fn i))" by (auto simp: list_ex_iff raised_def)
    then have "snd (fn i) = Inr ()" by (rule not_isl_unit)
    from normal[OF this] show "(fst (fn i), Inr ()) = (body i, Inr ())" by simp
  qed
  finally show "worker_runs d = map (\<lambda>i. (body i, Inr ())) [0..<nat n]" .
next
  assume a: "env Main_process [] Call_time = None
            \<and> list_all (\<lambda>i. snd (fn i) = Inr ()) [0..<nat n]
            \<and> env Main_process [Call_time, Call_spawn nm args n] Call_time = None"
  then have "snd (mp_spawn fn n sched) = None" by (simp add: mp_spawn_all_return)
  with a d
  show "fst (parent_run d) = [Call_time, Call_spawn nm args n, Call_time, Call_print_runtime s]"
    by (simp add: spawning_def with_spawn_def Let_def split: option.splits)
qed

lemma exec_propagates_nil:
  assumes "fst (exec env p [] cs) = pre @ c # post" "env p pre c = Some e"
  shows "snd (exec env p [] cs) = Inl e \<and> post = []"
proof -
  obtain tr res where ex: "exec env p [] cs = (tr, res)" by (cases "exec env p [] cs")
  with assms(1) have "tr = [] @ pre @ c # post" by simp
  from exec_propagates[OF ex this] assms(2) ex show ?thesis by simp
qed




subsection \<open>Paths\<close>

lemma str_nat_digits: "set (str_nat n) \<subseteq> set ''0123456789''"
proof (induction n rule: str_nat.induct)
  case (1 n)
  have d: "''0123456789'' ! (n mod 10) \<in> set ''0123456789''"
    by (rule nth_mem) simp
  show ?case
  proof (cases "n < 10")
    case True
    then have "''0123456789'' ! n \<in> set ''0123456789''" by (intro nth_mem) simp
    with True show ?thesis by (subst str_nat.simps) simp
  next
    case False
    with 1 have "set (str_nat (n div 10)) \<subseteq> set ''0123456789''" by simp
    with d False show ?thesis by (subst str_nat.simps) simp
  qed
qed

lemma str_int_no_slash: "CHR ''/'' \<notin> set (str_int i)"
proof -
  have "CHR ''/'' \<notin> set ''0123456789''" by simp
  with str_nat_digits have "\<And>n. CHR ''/'' \<notin> set (str_nat n)" by blast
  then show ?thesis by (simp add: str_int_def)
qed

lemma split_slash_no_slash: "CHR ''/'' \<notin> set xs \<Longrightarrow> split_slash xs = [xs]"
  by (induction xs) auto

lemma split_slash_at_slash:
  "CHR ''/'' \<notin> set xs \<Longrightarrow> split_slash (xs @ CHR ''/'' # ys) = xs # split_slash ys"
  by (induction xs) auto

lemma Path_checkpoint:
  assumes "CHR ''/'' \<notin> set name"
  shows "Path (''./trained_'' @ name @ ''/Nuclear_epoch'' @ str_int k @ ''.pt'')
           = PosixPath (spec_checkpoint_path name k)"
proof -
  let ?file = "''Nuclear_epoch'' @ str_int k @ ''.pt''"
  have fname: "CHR ''/'' \<notin> set ?file" using str_int_no_slash[of k] by simp
  have dname: "CHR ''/'' \<notin> set (''trained_'' @ name)" using assms by simp
  have "''./trained_'' @ name @ ''/Nuclear_epoch'' @ str_int k @ ''.pt''
          = ''.'' @ CHR ''/'' # ((''trained_'' @ name) @ CHR ''/'' # ?file)"
    by simp
  then have "split_slash (''./trained_'' @ name @ ''/Nuclear_epoch'' @ str_int k @ ''.pt'')
          = [''.'', ''trained_'' @ name, ?file]"
    using split_slash_at_slash[of "''.''"] split_slash_at_slash[OF dname, of ?file]
      split_slash_no_slash[OF fname]
    by simp
  moreover have "posix_root (''./trained_'' @ name @ ''/Nuclear_epoch'' @ str_int k @ ''.pt'') = []"
    by (simp add: posix_root_def)
  ultimately show ?thesis
    by (simp add: Path_def Let_def spec_checkpoint_path_def)
qed

subsection \<open>Sample runs\<close>

lemma sample_BERT_DDP_run:
  "run_BERT_DDP never_raises worker_1_in_train sample_BERT 2 1 8 (1 / 100000) 1 =
  \<lparr>parent_run = ([Call_time, Call_spawn ''BERT_DDP'' (2, 1, 8, 1 / 100000, 1) 2, Call_time,
       Call_print_runtime ''''], Inr ()),
    worker_runs = [(BERT_DDP_body sample_BERT 0 2 1 8 (1 / 100000) 1, Inr ()),
                   (BERT_DDP_body sample_BERT 1 2 1 8 (1 / 100000) 1, Inr ())]\<rparr>"
  by (simp add: run_BERT_DDP_def spawning_def mp_spawn_def with_spawn_def never_raises_def
      raised_def BERT_DDP_def BERT_DDP_body_def Let_def upt_rec)

lemma sample_GPT_DDP_run:
  "run_GPT_DDP never_raises worker_1_in_train sample_GPT 2 1 8 (1 / 100000) 1 =
  \<lparr>parent_run = ([Call_time, Call_spawn ''GPT_DDP'' (2, 1, 8, 1 / 100000, 1) 2, Call_time,
       Call_print_runtime ''''], Inr ()),
    worker_runs = [(GPT_DDP_body sample_GPT 0 2 1 8 (1 / 100000) 1, Inr ()),
                   (GPT_DDP_body sample_GPT 1 2 1 8 (1 / 100000) 1, Inr ())]\<rparr>"
  by (simp add: run_GPT_DDP_def spawning_def mp_spawn_def with_spawn_def never_raises_def
      raised_def GPT_DDP_def GPT_DDP_body_def Let_def upt_rec)



text \<open>A worker that is inside \<open>train\<close> when its sibling fails in \<open>test\<close> is terminated
  there: it makes no further call, \<open>destroy_process_group\<close> included.\<close>

lemma sample_BERT_DDP_sibling_terminated:
  "run_BERT_DDP test_raises_in_worker_0 worker_1_in_train sample_BERT 2 1 8 (1 / 100000) 1 =
  \<lparr>parent_run = ([Call_time, Call_spawn ''BERT_DDP'' (2, 1, 8, 1 / 100000, 1) 2],
       Inl ProcessRaisedException),
    worker_runs = [(butlast (BERT_DDP_body sample_BERT 0 2 1 8 (1 / 100000) 1),
                      Inl (Raised ''FileNotFoundError'')),
                   (take 5 (BERT_DDP_body sample_BERT 1 2 1 8 (1 / 100000) 1),
                      Inl ProcessTerminated)]\<rparr>"
  by (simp add: run_BERT_DDP_def spawning_def mp_spawn_def with_spawn_def
      test_raises_in_worker_0_def raised_def fails_alone_def worker_1_in_train_def
      BERT_DDP_def BERT_DDP_body_def Let_def upt_rec)

text \<open>The sample wrappers are what the constructors build over the sample data module.\<close>

lemma sample_constructors:
  "BERT_init sample_data_module ''reviews.csv'' ''text'' ''label'' 128 (1 / 5) (1 / 10) 42 ''utf-8''
     = Inr sample_BERT
   \<and> GPT_init sample_data_module ''reviews.csv'' ''text'' ''label'' 128 (1 / 5) (1 / 10) 42 ''utf-8''
     = Inr sample_GPT
   \<and> Llama_init sample_data_module ''reviews.csv'' ''text'' ''label'' 128 (1 / 5) (1 / 10) 42 ''utf-8''
     = Inr sample_Llama"
  by (simp add: BERT_init_def GPT_init_def Llama_init_def raise_or_def sample_data_module_def
      sample_BERT_def sample_GPT_def sample_Llama_def)

section \<open>The checkpoint handed to the test phase\<close>

text \<open>
  C1. The single-device run methods are to test the checkpoint of epoch index
  \<open>total_epochs - 1\<close>. \<open>run_LLAMA\<close> does not: called with \<open>epochs = 2\<close> and no
  collaborator raising, it trains for 2 epochs and then hands \<open>test\<close> the path of epoch
  index 4, where the path of the last epoch is \<open>trained_Llama/Nuclear_epoch1.pt\<close>.
\<close>

theorem run_LLAMA_tests_epoch4:
  "fst (run_LLAMA never_raises sample_Llama 2 16 (1 / 50000) 1 0)
     = run_LLAMA_body sample_Llama 2 16 (1 / 50000) 1 0
   \<and> Call_train 2 \<in> set (fst (run_LLAMA never_raises sample_Llama 2 16 (1 / 50000) 1 0))
   \<and> test_paths (fst (run_LLAMA never_raises sample_Llama 2 16 (1 / 50000) 1 0))
       = [Str ''./trained_Llama/Nuclear_epoch4.pt'']
   \<and> spec_checkpoint_path ''Llama'' (2 - 1) = ''trained_Llama/Nuclear_epoch1.pt''"
  by (simp add: run_LLAMA_def run_LLAMA_body_def never_raises_def prepare_const_def Let_def
      spec_checkpoint_path_def str_int_def str_nat.simps)

text \<open>
  C4, as the claim states it, fails at \<open>BERT_DDP\<close>: with \<open>epochs = 1\<close> the worker hands
  \<open>test\<close> the string \<open>./trained_BERT_DDP/Nuclear_epoch0.pt\<close>, which is not the string
  \<open>trained_BERT_DDP/Nuclear_epoch0.pt\<close> of the specification's template.
\<close>

theorem BERT_DDP_path_has_dot_slash:
  "test_paths (fst (BERT_DDP never_raises (Worker_process 0) sample_BERT 0 2 1 8 (1 / 100000) 1))
     = [Str ''./trained_BERT_DDP/Nuclear_epoch0.pt'']
   \<and> spec_checkpoint_path ''BERT_DDP'' (1 - 1) = ''trained_BERT_DDP/Nuclear_epoch0.pt''
   \<and> ''./trained_BERT_DDP/Nuclear_epoch0.pt'' \<noteq> spec_checkpoint_path ''BERT_DDP'' (1 - 1)"
  by (simp add: BERT_DDP_def BERT_DDP_body_def never_raises_def prepare_const_def Let_def
      spec_checkpoint_path_def str_int_def str_nat.simps)

text \<open>
  C4, amended. The path handed to \<open>test\<close> is the specification's template
  \<open>trained_<model_name>/Nuclear_epoch<epoch_index>.pt\<close>, with the model name one of
  \<open>BERT\<close>, \<open>BERT_DDP\<close>, \<open>GPT2\<close>, \<open>Llama\<close>, in one of two forms. \<open>run_BERT\<close>,
  \<open>run_GPT\<close> and \<open>GPT_DDP\<close> hand over a \<open>pathlib.Path\<close> object that renders exactly
  as the template. \<open>BERT_DDP\<close> and \<open>run_LLAMA\<close> hand over a plain string, which is the
  template behind the prefix \<open>./\<close>. Either is a function of the model name and the epoch
  index alone: the index is \<open>epochs - 1\<close> at the BERT and GPT sites, and nothing is said
  here about which index \<open>run_LLAMA\<close> uses.
\<close>

theorem checkpoint_path_text:
  "test_paths (run_BERT_body self epochs bs l every gpu_id)
     = [PosixPath (spec_checkpoint_path ''BERT'' (epochs - 1))]
   \<and> test_paths (run_GPT_body self epochs bs l every gpu_id)
     = [PosixPath (spec_checkpoint_path ''GPT2'' (epochs - 1))]
   \<and> test_paths (GPT_DDP_body self rank ws epochs bs l every)
     = [PosixPath (spec_checkpoint_path ''GPT2'' (epochs - 1))]
   \<and> test_paths (BERT_DDP_body self rank ws epochs bs l every)
     = [Str (''./'' @ spec_checkpoint_path ''BERT_DDP'' (epochs - 1))]
   \<and> (\<exists>k. test_paths (run_LLAMA_body self epochs bs l every gpu_id)
     = [Str (''./'' @ spec_checkpoint_path ''Llama'' k)])"
proof -
  have bert: "Path (''./trained_'' @ ''BERT'' @ ''/Nuclear_epoch'' @ str_int (epochs - 1) @ ''.pt'')
           = PosixPath (spec_checkpoint_path ''BERT'' (epochs - 1))"
    by (rule Path_checkpoint) simp
  have gpt: "Path (''./trained_'' @ ''GPT2'' @ ''/Nuclear_epoch'' @ str_int (epochs - 1) @ ''.pt'')
           = PosixPath (spec_checkpoint_path ''GPT2'' (epochs - 1))"
    by (rule Path_checkpoint) simp
  have 1: "test_paths (run_BERT_body self epochs bs l every gpu_id)
     = [PosixPath (spec_checkpoint_path ''BERT'' (epochs - 1))]"
    using bert by (simp add: run_BERT_body_def prepare_const_def Let_def)
  have 2: "test_paths (run_GPT_body self epochs bs l every gpu_id)
     = [PosixPath (spec_checkpoint_path ''GPT2'' (epochs - 1))]"
    using gpt by (simp add: run_GPT_body_def prepare_const_def Let_def)
  have 3: "test_paths (GPT_DDP_body self rank ws epochs bs l every)
     = [PosixPath (spec_checkpoint_path ''GPT2'' (epochs - 1))]"
    using gpt by (simp add: GPT_DDP_body_def prepare_const_def Let_def)
  have 4: "test_paths (BERT_DDP_body self rank ws epochs bs l every)
     = [Str (''./'' @ spec_checkpoint_path ''BERT_DDP'' (epochs - 1))]"
    by (simp add: BERT_DDP_body_def prepare_const_def Let_def spec_checkpoint_path_def)
  have "str_int 4 = ''4''" by (simp add: str_int_def str_nat.simps)
  then have "test_paths (run_LLAMA_body self epochs bs l every gpu_id)
     = [Str (''./'' @ spec_checkpoint_path ''Llama'' 4)]"
    by (simp add: run_LLAMA_body_def prepare_const_def Let_def spec_checkpoint_path_def)
  then have 5: "\<exists>k. test_paths (run_LLAMA_body self epochs bs l every gpu_id)
     = [Str (''./'' @ spec_checkpoint_path ''Llama'' k)]" by blast
  from 1 2 3 4 5 show ?thesis by blast
qed

section \<open>Tearing the process group down\<close>

text \<open>
  C2, as the claim states it, fails: when \<open>test\<close> raises in \<open>BERT_DDP\<close>, the worker ends
  with that exception and \<open>destroy_process_group\<close> is not called.
\<close>

theorem BERT_DDP_test_raises_no_destroy:
  "snd (BERT_DDP test_raises (Worker_process 0) sample_BERT 0 2 1 8 (1 / 100000) 1)
     = Inl (Raised ''FileNotFoundError'')
   \<and> count_list (fst (BERT_DDP test_raises (Worker_process 0) sample_BERT 0 2 1 8 (1 / 100000) 1))
       Call_destroy_process_group = 0"
  by (simp add: BERT_DDP_def BERT_DDP_body_def test_raises_def prepare_const_def Let_def)

text \<open>
  C2, amended. In \<open>BERT_DDP\<close> and \<open>GPT_DDP\<close> the call of \<open>destroy_process_group\<close> is the
  last statement. When the six calls before it (model, \<open>prepare_const\<close>, \<open>ddp_setup\<close>,
  \<open>TrainerDDP\<close>, \<open>train\<close>, \<open>test\<close>) all return, the worker has made exactly these six
  calls and then \<open>destroy_process_group\<close>, once, and the worker's result is that call's.
  When one of the six raises, the worker stops there, its result is that exception, and
  \<open>destroy_process_group\<close> is not called.
\<close>

theorem destroy_process_group_when_test_returns:
  "BERT_DDP env p self rank ws epochs bs l every
     = (if snd (exec env p [] (butlast (BERT_DDP_body self rank ws epochs bs l every))) = Inr ()
        then exec env p (butlast (BERT_DDP_body self rank ws epochs bs l every))
               [Call_destroy_process_group]
        else exec env p [] (butlast (BERT_DDP_body self rank ws epochs bs l every)))
   \<and> fst (BERT_DDP env p self rank ws epochs bs l every)
     = (if snd (exec env p [] (butlast (BERT_DDP_body self rank ws epochs bs l every))) = Inr ()
        then butlast (BERT_DDP_body self rank ws epochs bs l every) @ [Call_destroy_process_group]
        else fst (exec env p [] (butlast (BERT_DDP_body self rank ws epochs bs l every))))
   \<and> count_list (fst (BERT_DDP env p self rank ws epochs bs l every)) Call_destroy_process_group
     = (if snd (exec env p [] (butlast (BERT_DDP_body self rank ws epochs bs l every))) = Inr ()
        then 1 else 0)
   \<and> (fst (BERT_DDP env p self rank ws epochs bs l every) = pre @ [c]
        \<and> c \<noteq> Call_destroy_process_group \<and> env p pre c = Some e
      \<longrightarrow> snd (BERT_DDP env p self rank ws epochs bs l every) = Inl e
        \<and> count_list (fst (BERT_DDP env p self rank ws epochs bs l every))
            Call_destroy_process_group = 0)
   \<and> GPT_DDP env p self rank ws epochs bs l every
     = (if snd (exec env p [] (butlast (GPT_DDP_body self rank ws epochs bs l every))) = Inr ()
        then exec env p (butlast (GPT_DDP_body self rank ws epochs bs l every))
               [Call_destroy_process_group]
        else exec env p [] (butlast (GPT_DDP_body self rank ws epochs bs l every)))
   \<and> fst (GPT_DDP env p self rank ws epochs bs l every)
     = (if snd (exec env p [] (butlast (GPT_DDP_body self rank ws epochs bs l every))) = Inr ()
        then butlast (GPT_DDP_body self rank ws epochs bs l every) @ [Call_destroy_process_group]
        else fst (exec env p [] (butlast (GPT_DDP_body self rank ws epochs bs l every))))
   \<and> count_list (fst (GPT_DDP env p self rank ws epochs bs l every)) Call_destroy_process_group
     = (if snd (exec env p [] (butlast (GPT_DDP_body self rank ws epochs bs l every))) = Inr ()
        then 1 else 0)
   \<and> (fst (GPT_DDP env p self rank ws epochs bs l every) = pre @ [c]
        \<and> c \<noteq> Call_destroy_process_group \<and> env p pre c = Some e
      \<longrightarrow> snd (GPT_DDP env p self rank ws epochs bs l every) = Inl e
        \<and> count_list (fst (GPT_DDP env p self rank ws epochs bs l every))
            Call_destroy_process_group = 0)"
proof -
  have b0: "BERT_DDP env p self rank ws epochs bs l every
     = (if snd (exec env p [] (butlast (BERT_DDP_body self rank ws epochs bs l every))) = Inr ()
        then exec env p (butlast (BERT_DDP_body self rank ws epochs bs l every))
               [Call_destroy_process_group]
        else exec env p [] (butlast (BERT_DDP_body self rank ws epochs bs l every)))"
    unfolding BERT_DDP_def
    by (subst BERT_DDP_body_split(1)) (rule exec_worker_split)
  have b1: "fst (BERT_DDP env p self rank ws epochs bs l every)
     = (if snd (exec env p [] (butlast (BERT_DDP_body self rank ws epochs bs l every))) = Inr ()
        then butlast (BERT_DDP_body self rank ws epochs bs l every) @ [Call_destroy_process_group]
        else fst (exec env p [] (butlast (BERT_DDP_body self rank ws epochs bs l every))))"
    unfolding BERT_DDP_def
    by (subst BERT_DDP_body_split(1)) (rule exec_before_last)
  have b2: "count_list (fst (BERT_DDP env p self rank ws epochs bs l every))
       Call_destroy_process_group
     = (if snd (exec env p [] (butlast (BERT_DDP_body self rank ws epochs bs l every))) = Inr ()
        then 1 else 0)"
    unfolding BERT_DDP_def
    by (rule teardown_count[OF BERT_DDP_body_split])
  have b3: "fst (BERT_DDP env p self rank ws epochs bs l every) = pre @ [c]
        \<and> c \<noteq> Call_destroy_process_group \<and> env p pre c = Some e
      \<longrightarrow> snd (BERT_DDP env p self rank ws epochs bs l every) = Inl e
        \<and> count_list (fst (BERT_DDP env p self rank ws epochs bs l every))
            Call_destroy_process_group = 0"
  proof
    assume a: "fst (BERT_DDP env p self rank ws epochs bs l every) = pre @ [c]
        \<and> c \<noteq> Call_destroy_process_group \<and> env p pre c = Some e"
    then have "fst (exec env p [] (BERT_DDP_body self rank ws epochs bs l every)) = pre @ c # []"
      by (simp add: BERT_DDP_def)
    from exec_propagates_nil[OF this] a
    have r: "snd (BERT_DDP env p self rank ws epochs bs l every) = Inl e"
      by (simp add: BERT_DDP_def)
    from a b1 have "snd (exec env p [] (butlast (BERT_DDP_body self rank ws epochs bs l every)))
                      \<noteq> Inr ()"
      by (auto split: if_splits)
    with b2 r
    show "snd (BERT_DDP env p self rank ws epochs bs l every) = Inl e
        \<and> count_list (fst (BERT_DDP env p self rank ws epochs bs l every))
            Call_destroy_process_group = 0"
      by simp
  qed
  have g0: "GPT_DDP env p self rank ws epochs bs l every
     = (if snd (exec env p [] (butlast (GPT_DDP_body self rank ws epochs bs l every))) = Inr ()
        then exec env p (butlast (GPT_DDP_body self rank ws epochs bs l every))
               [Call_destroy_process_group]
        else exec env p [] (butlast (GPT_DDP_body self rank ws epochs bs l every)))"
    unfolding GPT_DDP_def
    by (subst GPT_DDP_body_split(1)) (rule exec_worker_split)
  have g1: "fst (GPT_DDP env p self rank ws epochs bs l every)
     = (if snd (exec env p [] (butlast (GPT_DDP_body self rank ws epochs bs l every))) = Inr ()
        then butlast (GPT_DDP_body self rank ws epochs bs l every) @ [Call_destroy_process_group]
        else fst (exec env p [] (butlast (GPT_DDP_body self rank ws epochs bs l every))))"
    unfolding GPT_DDP_def
    by (subst GPT_DDP_body_split(1)) (rule exec_before_last)
  have g2: "count_list (fst (GPT_DDP env p self rank ws epochs bs l every))
       Call_destroy_process_group
     = (if snd (exec env p [] (butlast (GPT_DDP_body self rank ws epochs bs l every))) = Inr ()
        then 1 else 0)"
    unfolding GPT_DDP_def
    by (rule teardown_count[OF GPT_DDP_body_split])
  have g3: "fst (GPT_DDP env p self rank ws epochs bs l every) = pre @ [c]
        \<and> c \<noteq> Call_destroy_process_group \<and> env p pre c = Some e
      \<longrightarrow> snd (GPT_DDP env p self rank ws epochs bs l every) = Inl e
        \<and> count_list (fst (GPT_DDP env p self rank ws epochs bs l every))
            Call_destroy_process_group = 0"
  proof
    assume a: "fst (GPT_DDP env p self rank ws epochs bs l every) = pre @ [c]
        \<and> c \<noteq> Call_destroy_process_group \<and> env p pre c = Some e"
    then have "fst (exec env p [] (GPT_DDP_body self rank ws epochs bs l every)) = pre @ c # []"
      by (simp add: GPT_DDP_def)
    from exec_propagates_nil[OF this] a
    have r: "snd (GPT_DDP env p self rank ws epochs bs l every) = Inl e"
      by (simp add: GPT_DDP_def)
    from a g1 have "snd (exec env p [] (butlast (GPT_DDP_body self rank ws epochs bs l every)))
                      \<noteq> Inr ()"
      by (auto split: if_splits)
    with g2 r
    show "snd (GPT_DDP env p self rank ws epochs bs l every) = Inl e
        \<and> count_list (fst (GPT_DDP env p self rank ws epochs bs l every))
            Call_destroy_process_group = 0"
      by simp
  qed
  show ?thesis by (intro conjI b0 b1 b2 b3 g0 g1 g2 g3)
qed

theorem destroy_process_group_when_test_returns_witness:
  "fst (BERT_DDP test_raises (Worker_process 0) sample_BERT 0 2 1 8 (1 / 100000) 1)
     = take 5 (BERT_DDP_body sample_BERT 0 2 1 8 (1 / 100000) 1)
         @ [Call_test (Str ''./trained_BERT_DDP/Nuclear_epoch0.pt'')]
   \<and> Call_test (Str ''./trained_BERT_DDP/Nuclear_epoch0.pt'')
       \<noteq> (Call_destroy_process_group :: string call)
   \<and> test_raises (Worker_process 0) (take 5 (BERT_DDP_body sample_BERT 0 2 1 8 (1 / 100000) 1))
        (Call_test (Str ''./trained_BERT_DDP/Nuclear_epoch0.pt''))
       = Some (Raised ''FileNotFoundError'')
   \<and> snd (BERT_DDP test_raises (Worker_process 0) sample_BERT 0 2 1 8 (1 / 100000) 1)
       = Inl (Raised ''FileNotFoundError'')
   \<and> count_list (fst (BERT_DDP test_raises (Worker_process 0) sample_BERT 0 2 1 8 (1 / 100000) 1))
        Call_destroy_process_group = 0
   \<and> fst (GPT_DDP test_raises (Worker_process 1) sample_GPT 1 2 1 8 (1 / 100000) 1)
     = take 5 (GPT_DDP_body sample_GPT 1 2 1 8 (1 / 100000) 1)
         @ [Call_test (Path ''./trained_GPT2/Nuclear_epoch0.pt'')]
   \<and> Call_test (Path ''./trained_GPT2/Nuclear_epoch0.pt'')
       \<noteq> (Call_destroy_process_group :: string call)
   \<and> test_raises (Worker_process 1) (take 5 (GPT_DDP_body sample_GPT 1 2 1 8 (1 / 100000) 1))
        (Call_test (Path ''./trained_GPT2/Nuclear_epoch0.pt''))
       = Some (Raised ''FileNotFoundError'')
   \<and> snd (GPT_DDP test_raises (Worker_process 1) sample_GPT 1 2 1 8 (1 / 100000) 1)
       = Inl (Raised ''FileNotFoundError'')
   \<and> count_list (fst (GPT_DDP test_raises (Worker_process 1) sample_GPT 1 2 1 8 (1 / 100000) 1))
        Call_destroy_process_group = 0
   \<and> snd (exec never_raises (Worker_process 0) []
        (butlast (BERT_DDP_body sample_BERT 0 2 1 8 (1 / 100000) 1))) = Inr ()
   \<and> BERT_DDP never_raises (Worker_process 0) sample_BERT 0 2 1 8 (1 / 100000) 1
       = (BERT_DDP_body sample_BERT 0 2 1 8 (1 / 100000) 1, Inr ())
   \<and> count_list (fst (BERT_DDP never_raises (Worker_process 0) sample_BERT 0 2 1 8 (1 / 100000) 1))
        Call_destroy_process_group = 1
   \<and> snd (exec never_raises (Worker_process 1) []
        (butlast (GPT_DDP_body sample_GPT 1 2 1 8 (1 / 100000) 1))) = Inr ()
   \<and> GPT_DDP never_raises (Worker_process 1) sample_GPT 1 2 1 8 (1 / 100000) 1
       = (GPT_DDP_body sample_GPT 1 2 1 8 (1 / 100000) 1, Inr ())
   \<and> count_list (fst (GPT_DDP never_raises (Worker_process 1) sample_GPT 1 2 1 8 (1 / 100000) 1))
        Call_destroy_process_group = 1"
proof -
  let ?cb = "Call_test (Str ''./trained_BERT_DDP/Nuclear_epoch0.pt'') :: string call"
  let ?cg = "Call_test (Path ''./trained_GPT2/Nuclear_epoch0.pt'') :: string call"
  let ?pb = "take 5 (BERT_DDP_body sample_BERT 0 2 1 8 (1 / 100000) 1)"
  let ?pg = "take 5 (GPT_DDP_body sample_GPT 1 2 1 8 (1 / 100000) 1)"
  have b1: "fst (BERT_DDP test_raises (Worker_process 0) sample_BERT 0 2 1 8 (1 / 100000) 1)
              = ?pb @ [?cb]"
    by (simp add: BERT_DDP_def BERT_DDP_body_def test_raises_def prepare_const_def Let_def
        str_int_def str_nat.simps)
  have b2: "?cb \<noteq> Call_destroy_process_group" by simp
  have b3: "test_raises (Worker_process 0) ?pb ?cb = Some (Raised ''FileNotFoundError'')"
    by (simp add: test_raises_def)
  have g1: "fst (GPT_DDP test_raises (Worker_process 1) sample_GPT 1 2 1 8 (1 / 100000) 1)
              = ?pg @ [?cg]"
    by (simp add: GPT_DDP_def GPT_DDP_body_def test_raises_def prepare_const_def Let_def
        str_int_def str_nat.simps)
  have g2: "?cg \<noteq> Call_destroy_process_group" by simp
  have g3: "test_raises (Worker_process 1) ?pg ?cg = Some (Raised ''FileNotFoundError'')"
    by (simp add: test_raises_def)
  have nb: "snd (exec never_raises (Worker_process 0) []
        (butlast (BERT_DDP_body sample_BERT 0 2 1 8 (1 / 100000) 1))) = Inr ()"
    by (simp add: BERT_DDP_body_def never_raises_def Let_def)
  have ng: "snd (exec never_raises (Worker_process 1) []
        (butlast (GPT_DDP_body sample_GPT 1 2 1 8 (1 / 100000) 1))) = Inr ()"
    by (simp add: GPT_DDP_body_def never_raises_def Let_def)
  have db: "exec never_raises (Worker_process 0)
              (butlast (BERT_DDP_body sample_BERT 0 2 1 8 (1 / 100000) 1))
              [Call_destroy_process_group]
            = (BERT_DDP_body sample_BERT 0 2 1 8 (1 / 100000) 1, Inr ())"
    by (simp add: BERT_DDP_body_def never_raises_def Let_def)
  have dg: "exec never_raises (Worker_process 1)
              (butlast (GPT_DDP_body sample_GPT 1 2 1 8 (1 / 100000) 1))
              [Call_destroy_process_group]
            = (GPT_DDP_body sample_GPT 1 2 1 8 (1 / 100000) 1, Inr ())"
    by (simp add: GPT_DDP_body_def never_raises_def Let_def)
  note tb = destroy_process_group_when_test_returns[of test_raises "Worker_process 0"
      sample_BERT 0 2 1 8 "1 / 100000" 1 ?pb ?cb "Raised ''FileNotFoundError''"]
  note tg = destroy_process_group_when_test_returns[of test_raises "Worker_process 1"
      sample_GPT 1 2 1 8 "1 / 100000" 1 ?pg ?cg "Raised ''FileNotFoundError''"]
  note nbt = destroy_process_group_when_test_returns[of never_raises "Worker_process 0"
      sample_BERT 0 2 1 8 "1 / 100000" 1]
  note ngt = destroy_process_group_when_test_returns[of never_raises "Worker_process 1"
      sample_GPT 1 2 1 8 "1 / 100000" 1]
  from tb b1 b2 b3
  have c1: "snd (BERT_DDP test_raises (Worker_process 0) sample_BERT 0 2 1 8 (1 / 100000) 1)
       = Inl (Raised ''FileNotFoundError'')"
    and c2: "count_list (fst (BERT_DDP test_raises (Worker_process 0) sample_BERT 0 2 1 8 (1 / 100000) 1))
        Call_destroy_process_group = 0"
    by blast+
  from tg g1 g2 g3
  have c3: "snd (GPT_DDP test_raises (Worker_process 1) sample_GPT 1 2 1 8 (1 / 100000) 1)
       = Inl (Raised ''FileNotFoundError'')"
    and c4: "count_list (fst (GPT_DDP test_raises (Worker_process 1) sample_GPT 1 2 1 8 (1 / 100000) 1))
        Call_destroy_process_group = 0"
    by blast+
  from nbt[THEN conjunct1] nb db
  have c5: "BERT_DDP never_raises (Worker_process 0) sample_BERT 0 2 1 8 (1 / 100000) 1
       = (BERT_DDP_body sample_BERT 0 2 1 8 (1 / 100000) 1, Inr ())"
    by (simp only: if_True refl)
  from nbt[THEN conjunct2, THEN conjunct2, THEN conjunct1] nb
  have c6: "count_list (fst (BERT_DDP never_raises (Worker_process 0) sample_BERT 0 2 1 8 (1 / 100000) 1))
        Call_destroy_process_group = 1"
    by (simp only: if_True refl)
  from ngt[THEN conjunct2, THEN conjunct2, THEN conjunct2, THEN conjunct2, THEN conjunct1] ng dg
  have c7: "GPT_DDP never_raises (Worker_process 1) sample_GPT 1 2 1 8 (1 / 100000) 1
       = (GPT_DDP_body sample_GPT 1 2 1 8 (1 / 100000) 1, Inr ())"
    by (simp only: if_True refl)
  from ngt[THEN conjunct2, THEN conjunct2, THEN conjunct2, THEN conjunct2, THEN conjunct2,
      THEN conjunct2, THEN conjunct1] ng
  have c8: "count_list (fst (GPT_DDP never_raises (Worker_process 1) sample_GPT 1 2 1 8 (1 / 100000) 1))
        Call_destroy_process_group = 1"
    by (simp only: if_True refl)
  show ?thesis by (intro conjI b1 b2 b3 c1 c2 g1 g2 g3 c3 c4 nb c5 c6 ng c7 c8)
qed

section \<open>Setting the process group up\<close>

text \<open>
  C7. In \<open>BERT_DDP\<close> and \<open>GPT_DDP\<close>, whenever the \<open>TrainerDDP\<close> constructor is called,
  the call made just before it is \<open>ddp_setup(rank, world_size)\<close>, and that call returned.
  The setup and trainer calls a worker makes are: none when model construction or
  \<open>prepare_const\<close> raises; \<open>ddp_setup(rank, world_size)\<close> alone when that call raises;
  and otherwise \<open>ddp_setup(rank, world_size)\<close> followed by the \<open>TrainerDDP\<close> constructor
  with \<open>gpu_id = rank\<close>.
\<close>

theorem ddp_setup_precedes_TrainerDDP:
  "(fst (BERT_DDP env p self rank ws epochs bs l every)
        = pre @ Call_TrainerDDP g m tr te va k # post
      \<longrightarrow> (\<exists>pre0. pre = pre0 @ [Call_ddp_setup rank ws]
             \<and> env p pre0 (Call_ddp_setup rank ws) = None))
   \<and> filter is_setup_or_trainer (fst (BERT_DDP env p self rank ws epochs bs l every))
       = (if snd (exec env p [] (take 2 (BERT_DDP_body self rank ws epochs bs l every))) = Inr ()
          then (if env p (take 2 (BERT_DDP_body self rank ws epochs bs l every))
                     (Call_ddp_setup rank ws) = None
                then [Call_ddp_setup rank ws,
                      Call_TrainerDDP rank (CustomClassificationModel (checkpoint self) 3)
                        (train_dataset self) (test_dataset self) (val_dataset self)
                        (prepare_const epochs bs l every ''BERT_DDP'')]
                else [Call_ddp_setup rank ws])
          else [])
   \<and> (fst (GPT_DDP env p self rank ws epochs bs l every)
        = pre @ Call_TrainerDDP g m tr te va k # post
      \<longrightarrow> (\<exists>pre0. pre = pre0 @ [Call_ddp_setup rank ws]
             \<and> env p pre0 (Call_ddp_setup rank ws) = None))
   \<and> filter is_setup_or_trainer (fst (GPT_DDP env p self rank ws epochs bs l every))
       = (if snd (exec env p [] (take 2 (GPT_DDP_body self rank ws epochs bs l every))) = Inr ()
          then (if env p (take 2 (GPT_DDP_body self rank ws epochs bs l every))
                     (Call_ddp_setup rank ws) = None
                then [Call_ddp_setup rank ws,
                      Call_TrainerDDP rank (CustomClassificationModel (checkpoint self) 3)
                        (train_dataset self) (test_dataset self) (val_dataset self)
                        (prepare_const epochs bs l every ''GPT2'')]
                else [Call_ddp_setup rank ws])
          else [])"
proof -
  have b1: "fst (BERT_DDP env p self rank ws epochs bs l every)
        = pre @ Call_TrainerDDP g m tr te va k # post
      \<longrightarrow> (\<exists>pre0. pre = pre0 @ [Call_ddp_setup rank ws]
             \<and> env p pre0 (Call_ddp_setup rank ws) = None)"
  proof
    assume "fst (BERT_DDP env p self rank ws epochs bs l every)
        = pre @ Call_TrainerDDP g m tr te va k # post"
    then have "fst (exec env p [] (BERT_DDP_body self rank ws epochs bs l every))
        = pre @ Call_TrainerDDP g m tr te va k # post"
      by (simp add: BERT_DDP_def)
    then show "\<exists>pre0. pre = pre0 @ [Call_ddp_setup rank ws]
             \<and> env p pre0 (Call_ddp_setup rank ws) = None"
      by (intro call_before_returned[where body = "BERT_DDP_body self rank ws epochs bs l every"
            and c = "Call_TrainerDDP g m tr te va k" and post = post])
        (auto dest: BERT_DDP_body_TrainerDDP)
  qed
  have b2: "filter is_setup_or_trainer (fst (BERT_DDP env p self rank ws epochs bs l every))
       = (if snd (exec env p [] (take 2 (BERT_DDP_body self rank ws epochs bs l every))) = Inr ()
          then (if env p (take 2 (BERT_DDP_body self rank ws epochs bs l every))
                     (Call_ddp_setup rank ws) = None
                then [Call_ddp_setup rank ws,
                      Call_TrainerDDP rank (CustomClassificationModel (checkpoint self) 3)
                        (train_dataset self) (test_dataset self) (val_dataset self)
                        (prepare_const epochs bs l every ''BERT_DDP'')]
                else [Call_ddp_setup rank ws])
          else [])"
    unfolding BERT_DDP_def
    by (rule exec_setup_trainer[where ?c1.0 = "Call_CustomClassificationModel (checkpoint self) 3"
          and ?c2.0 = "Call_prepare_const epochs bs l every ''BERT_DDP''"
          and rest = "drop 4 (BERT_DDP_body self rank ws epochs bs l every)"])
      (simp_all add: BERT_DDP_body_def Let_def)
  have g1: "fst (GPT_DDP env p self rank ws epochs bs l every)
        = pre @ Call_TrainerDDP g m tr te va k # post
      \<longrightarrow> (\<exists>pre0. pre = pre0 @ [Call_ddp_setup rank ws]
             \<and> env p pre0 (Call_ddp_setup rank ws) = None)"
  proof
    assume "fst (GPT_DDP env p self rank ws epochs bs l every)
        = pre @ Call_TrainerDDP g m tr te va k # post"
    then have "fst (exec env p [] (GPT_DDP_body self rank ws epochs bs l every))
        = pre @ Call_TrainerDDP g m tr te va k # post"
      by (simp add: GPT_DDP_def)
    then show "\<exists>pre0. pre = pre0 @ [Call_ddp_setup rank ws]
             \<and> env p pre0 (Call_ddp_setup rank ws) = None"
      by (intro call_before_returned[where body = "GPT_DDP_body self rank ws epochs bs l every"
            and c = "Call_TrainerDDP g m tr te va k" and post = post])
        (auto dest: GPT_DDP_body_TrainerDDP)
  qed
  have g2: "filter is_setup_or_trainer (fst (GPT_DDP env p self rank ws epochs bs l every))
       = (if snd (exec env p [] (take 2 (GPT_DDP_body self rank ws epochs bs l every))) = Inr ()
          then (if env p (take 2 (GPT_DDP_body self rank ws epochs bs l every))
                     (Call_ddp_setup rank ws) = None
                then [Call_ddp_setup rank ws,
                      Call_TrainerDDP rank (CustomClassificationModel (checkpoint self) 3)
                        (train_dataset self) (test_dataset self) (val_dataset self)
                        (prepare_const epochs bs l every ''GPT2'')]
                else [Call_ddp_setup rank ws])
          else [])"
    unfolding GPT_DDP_def
    by (rule exec_setup_trainer[where ?c1.0 = "Call_CustomClassificationModel (checkpoint self) 3"
          and ?c2.0 = "Call_prepare_const epochs bs l every ''GPT2''"
          and rest = "drop 4 (GPT_DDP_body self rank ws epochs bs l every)"])
      (simp_all add: GPT_DDP_body_def Let_def)
  show ?thesis by (intro conjI b1 b2 g1 g2)
qed

theorem ddp_setup_precedes_TrainerDDP_witness:
  "fst (BERT_DDP never_raises (Worker_process 0) sample_BERT 0 2 1 8 (1 / 100000) 1)
     = [Call_CustomClassificationModel ''bert-base-uncased'' 3,
        Call_prepare_const 1 8 (1 / 100000) 1 ''BERT_DDP'',
        Call_ddp_setup 0 2]
       @ Call_TrainerDDP 0 (CustomClassificationModel ''bert-base-uncased'' 3)
           ''train'' ''test'' ''val'' (prepare_const 1 8 (1 / 100000) 1 ''BERT_DDP'')
       # [Call_train 1, Call_test (Str ''./trained_BERT_DDP/Nuclear_epoch0.pt''),
          Call_destroy_process_group]
   \<and> (\<exists>pre0. [Call_CustomClassificationModel ''bert-base-uncased'' 3,
        Call_prepare_const 1 8 (1 / 100000) 1 ''BERT_DDP'',
        Call_ddp_setup 0 2] = pre0 @ [Call_ddp_setup 0 2]
        \<and> never_raises (Worker_process 0) pre0 (Call_ddp_setup 0 2) = None)
   \<and> filter is_setup_or_trainer
        (fst (BERT_DDP never_raises (Worker_process 0) sample_BERT 0 2 1 8 (1 / 100000) 1))
       = [Call_ddp_setup 0 2,
          Call_TrainerDDP 0 (CustomClassificationModel ''bert-base-uncased'' 3)
            ''train'' ''test'' ''val'' (prepare_const 1 8 (1 / 100000) 1 ''BERT_DDP'')]
   \<and> fst (GPT_DDP never_raises (Worker_process 1) sample_GPT 1 2 1 8 (1 / 100000) 1)
     = [Call_CustomClassificationModel ''gpt2'' 3,
        Call_prepare_const 1 8 (1 / 100000) 1 ''GPT2'',
        Call_ddp_setup 1 2]
       @ Call_TrainerDDP 1 (CustomClassificationModel ''gpt2'' 3)
           ''train'' ''test'' ''val'' (prepare_const 1 8 (1 / 100000) 1 ''GPT2'')
       # [Call_train 1, Call_test (Path ''./trained_GPT2/Nuclear_epoch0.pt''),
          Call_destroy_process_group]
   \<and> (\<exists>pre0. [Call_CustomClassificationModel ''gpt2'' 3,
        Call_prepare_const 1 8 (1 / 100000) 1 ''GPT2'',
        Call_ddp_setup 1 2] = pre0 @ [Call_ddp_setup 1 2]
        \<and> never_raises (Worker_process 1) pre0 (Call_ddp_setup 1 2) = None)
   \<and> filter is_setup_or_trainer
        (fst (GPT_DDP never_raises (Worker_process 1) sample_GPT 1 2 1 8 (1 / 100000) 1))
       = [Call_ddp_setup 1 2,
          Call_TrainerDDP 1 (CustomClassificationModel ''gpt2'' 3)
            ''train'' ''test'' ''val'' (prepare_const 1 8 (1 / 100000) 1 ''GPT2'')]"
proof -
  let ?preB = "[Call_CustomClassificationModel ''bert-base-uncased'' 3,
        Call_prepare_const 1 8 (1 / 100000) 1 ''BERT_DDP'',
        Call_ddp_setup 0 2] :: string call list"
  let ?preG = "[Call_CustomClassificationModel ''gpt2'' 3,
        Call_prepare_const 1 8 (1 / 100000) 1 ''GPT2'',
        Call_ddp_setup 1 2] :: string call list"
  have tb: "fst (BERT_DDP never_raises (Worker_process 0) sample_BERT 0 2 1 8 (1 / 100000) 1)
     = ?preB
       @ Call_TrainerDDP 0 (CustomClassificationModel ''bert-base-uncased'' 3)
           ''train'' ''test'' ''val'' (prepare_const 1 8 (1 / 100000) 1 ''BERT_DDP'')
       # [Call_train 1, Call_test (Str ''./trained_BERT_DDP/Nuclear_epoch0.pt''),
          Call_destroy_process_group]"
    by (simp add: BERT_DDP_def BERT_DDP_body_def never_raises_def prepare_const_def Let_def
        sample_BERT_def str_int_def str_nat.simps)
  have tg: "fst (GPT_DDP never_raises (Worker_process 1) sample_GPT 1 2 1 8 (1 / 100000) 1)
     = ?preG
       @ Call_TrainerDDP 1 (CustomClassificationModel ''gpt2'' 3)
           ''train'' ''test'' ''val'' (prepare_const 1 8 (1 / 100000) 1 ''GPT2'')
       # [Call_train 1, Call_test (Path ''./trained_GPT2/Nuclear_epoch0.pt''),
          Call_destroy_process_group]"
    by (simp add: GPT_DDP_def GPT_DDP_body_def never_raises_def prepare_const_def Let_def
        sample_GPT_def str_int_def str_nat.simps)
  have eb: "snd (exec never_raises (Worker_process 0) []
              (take 2 (BERT_DDP_body sample_BERT 0 2 1 8 (1 / 100000) 1))) = Inr ()"
    "never_raises (Worker_process 0) (take 2 (BERT_DDP_body sample_BERT 0 2 1 8 (1 / 100000) 1))
       (Call_ddp_setup 0 2) = None"
    by (simp_all add: BERT_DDP_body_def never_raises_def Let_def)
  have eg: "snd (exec never_raises (Worker_process 1) []
              (take 2 (GPT_DDP_body sample_GPT 1 2 1 8 (1 / 100000) 1))) = Inr ()"
    "never_raises (Worker_process 1) (take 2 (GPT_DDP_body sample_GPT 1 2 1 8 (1 / 100000) 1))
       (Call_ddp_setup 1 2) = None"
    by (simp_all add: GPT_DDP_body_def never_raises_def Let_def)
  note thb = ddp_setup_precedes_TrainerDDP[of never_raises "Worker_process 0" sample_BERT 0 2 1 8
      "1 / 100000" 1 ?preB]
  note thg = ddp_setup_precedes_TrainerDDP[of never_raises "Worker_process 1" sample_GPT 1 2 1 8
      "1 / 100000" 1 ?preG]
  from thb tb have c1: "\<exists>pre0. ?preB = pre0 @ [Call_ddp_setup 0 2]
        \<and> never_raises (Worker_process 0) pre0 (Call_ddp_setup 0 2) = None"
    by blast
  from thb[THEN conjunct2, THEN conjunct1] eb
  have c2: "filter is_setup_or_trainer
        (fst (BERT_DDP never_raises (Worker_process 0) sample_BERT 0 2 1 8 (1 / 100000) 1))
       = [Call_ddp_setup 0 2,
          Call_TrainerDDP 0 (CustomClassificationModel ''bert-base-uncased'' 3)
            ''train'' ''test'' ''val'' (prepare_const 1 8 (1 / 100000) 1 ''BERT_DDP'')]"
    by (simp add: sample_BERT_def)
  from thg tg have c3: "\<exists>pre0. ?preG = pre0 @ [Call_ddp_setup 1 2]
        \<and> never_raises (Worker_process 1) pre0 (Call_ddp_setup 1 2) = None"
    by blast
  from thg[THEN conjunct2, THEN conjunct2, THEN conjunct2] eg
  have c4: "filter is_setup_or_trainer
        (fst (GPT_DDP never_raises (Worker_process 1) sample_GPT 1 2 1 8 (1 / 100000) 1))
       = [Call_ddp_setup 1 2,
          Call_TrainerDDP 1 (CustomClassificationModel ''gpt2'' 3)
            ''train'' ''test'' ''val'' (prepare_const 1 8 (1 / 100000) 1 ''GPT2'')]"
    by (simp add: sample_GPT_def)
  show ?thesis by (intro conjI tb c1 c2 tg c3 c4)
qed

section \<open>The operations of each class\<close>

text \<open>
  C3, as the claim states it, fails: the name \<open>run_LLAMA_DDP\<close> is not a method of class
  \<open>Llama\<close>.
\<close>

theorem Llama_has_no_run_DDP:
  "spec_run_DDP_name Llama = ''run_LLAMA_DDP''
   \<and> ''run_LLAMA_DDP'' \<notin> set (class_methods Llama)"
  by (simp add: spec_run_DDP_name_def)

text \<open>
  C3, amended. Classes \<open>BERT\<close> and \<open>GPT\<close> define both \<open>run_<NAME>\<close> and
  \<open>run_<NAME>_DDP\<close>; class \<open>Llama\<close> defines \<open>run_LLAMA\<close> and no distributed run method:
  apart from the constructor, \<open>run_LLAMA\<close> is its only method.
\<close>

theorem run_methods_of_each_class:
  "spec_run_name BERT \<in> set (class_methods BERT)
   \<and> spec_run_DDP_name BERT \<in> set (class_methods BERT)
   \<and> spec_run_name GPT \<in> set (class_methods GPT)
   \<and> spec_run_DDP_name GPT \<in> set (class_methods GPT)
   \<and> spec_run_name Llama \<in> set (class_methods Llama)
   \<and> spec_run_DDP_name Llama \<notin> set (class_methods Llama)
   \<and> filter (\<lambda>n. n \<noteq> ''__init__'') (class_methods Llama) = [spec_run_name Llama]"
  by (simp add: spec_run_name_def spec_run_DDP_name_def)

section \<open>Constructor parameters that are not read\<close>

text \<open>
  C9. The constructors of \<open>BERT\<close>, \<open>GPT\<close> and \<open>Llama\<close> accept \<open>max_length\<close>,
  \<open>test_size\<close>, \<open>val_size\<close> and \<open>seed\<close> and never read them: two calls that agree on
  \<open>data_path\<close>, \<open>input_col\<close>, \<open>output_col\<close> and \<open>encoding\<close> build the same object, or
  raise the same exception, whatever the four parameters are.
\<close>

theorem init_ignores_split_parameters:
  "BERT_init api data_path input_col output_col max_length test_size val_size seed encoding
     = BERT_init api data_path input_col output_col max_length' test_size' val_size' seed' encoding
   \<and> GPT_init api data_path input_col output_col max_length test_size val_size seed encoding
     = GPT_init api data_path input_col output_col max_length' test_size' val_size' seed' encoding
   \<and> Llama_init api data_path input_col output_col max_length test_size val_size seed encoding
     = Llama_init api data_path input_col output_col max_length' test_size' val_size' seed' encoding"
  by (simp add: BERT_init_def GPT_init_def Llama_init_def)

section \<open>Spawning the workers\<close>

text \<open>
  C5. For \<open>world_size \<ge> 1\<close>, \<open>run_BERT_DDP\<close> and \<open>run_GPT_DDP\<close>, once their spawn
  call is reached, start exactly \<open>world_size\<close> workers, worker \<open>i\<close> running the worker
  function with rank \<open>i\<close>: what it does is an initial part of that function's body, and
  all of that function's run when no worker raises. The parent prints the runtime only
  as its last call, after the spawn call has returned, which it does only when every
  worker has run its whole body and returned; and it does print then, unless its own
  clock call raises.
\<close>

theorem run_DDP_spawns_world_size_workers:
  assumes "1 \<le> world_size"
  shows "(env Main_process [] Call_time = None
            \<longrightarrow> int (length (worker_runs (run_BERT_DDP env sched self world_size epochs bs l every)))
                  = world_size
              \<and> (\<forall>i<nat world_size. \<exists>k.
                    fst (worker_runs (run_BERT_DDP env sched self world_size epochs bs l every) ! i)
                      = take k (BERT_DDP_body self (int i) world_size epochs bs l every)))
       \<and> (env Main_process [] Call_time = None
            \<and> list_all (\<lambda>i. snd (BERT_DDP env (Worker_process i) self (int i) world_size
                                     epochs bs l every) = Inr ()) [0..<nat world_size]
            \<longrightarrow> worker_runs (run_BERT_DDP env sched self world_size epochs bs l every)
                  = map (\<lambda>i. BERT_DDP env (Worker_process i) self (int i) world_size epochs bs l every)
                      [0..<nat world_size])
       \<and> (Call_print_runtime '''' \<in> set (fst (parent_run
                (run_BERT_DDP env sched self world_size epochs bs l every)))
            \<longrightarrow> fst (parent_run (run_BERT_DDP env sched self world_size epochs bs l every))
                  = [Call_time, Call_spawn ''BERT_DDP'' (world_size, epochs, bs, l, every) world_size,
                     Call_time, Call_print_runtime '''']
              \<and> worker_runs (run_BERT_DDP env sched self world_size epochs bs l every)
                  = map (\<lambda>i. (BERT_DDP_body self (int i) world_size epochs bs l every, Inr ()))
                      [0..<nat world_size])
       \<and> (env Main_process [] Call_time = None
            \<and> list_all (\<lambda>i. snd (BERT_DDP env (Worker_process i) self (int i) world_size
                                     epochs bs l every) = Inr ()) [0..<nat world_size]
            \<and> env Main_process
                  [Call_time, Call_spawn ''BERT_DDP'' (world_size, epochs, bs, l, every) world_size]
                  Call_time = None
            \<longrightarrow> fst (parent_run (run_BERT_DDP env sched self world_size epochs bs l every))
                  = [Call_time, Call_spawn ''BERT_DDP'' (world_size, epochs, bs, l, every) world_size,
                     Call_time, Call_print_runtime ''''])
       \<and> (env Main_process [] Call_time = None
            \<longrightarrow> int (length (worker_runs (run_GPT_DDP env sched self world_size epochs bs l every)))
                  = world_size
              \<and> (\<forall>i<nat world_size. \<exists>k.
                    fst (worker_runs (run_GPT_DDP env sched self world_size epochs bs l every) ! i)
                      = take k (GPT_DDP_body self (int i) world_size epochs bs l every)))
       \<and> (env Main_process [] Call_time = None
            \<and> list_all (\<lambda>i. snd (GPT_DDP env (Worker_process i) self (int i) world_size
                                     epochs bs l every) = Inr ()) [0..<nat world_size]
            \<longrightarrow> worker_runs (run_GPT_DDP env sched self world_size epochs bs l every)
                  = map (\<lambda>i. GPT_DDP env (Worker_process i) self (int i) world_size epochs bs l every)
                      [0..<nat world_size])
       \<and> (Call_print_runtime '''' \<in> set (fst (parent_run
                (run_GPT_DDP env sched self world_size epochs bs l every)))
            \<longrightarrow> fst (parent_run (run_GPT_DDP env sched self world_size epochs bs l every))
                  = [Call_time, Call_spawn ''GPT_DDP'' (world_size, epochs, bs, l, every) world_size,
                     Call_time, Call_print_runtime '''']
              \<and> worker_runs (run_GPT_DDP env sched self world_size epochs bs l every)
                  = map (\<lambda>i. (GPT_DDP_body self (int i) world_size epochs bs l every, Inr ()))
                      [0..<nat world_size])
       \<and> (env Main_process [] Call_time = None
            \<and> list_all (\<lambda>i. snd (GPT_DDP env (Worker_process i) self (int i) world_size
                                     epochs bs l every) = Inr ()) [0..<nat world_size]
            \<and> env Main_process
                  [Call_time, Call_spawn ''GPT_DDP'' (world_size, epochs, bs, l, every) world_size]
                  Call_time = None
            \<longrightarrow> fst (parent_run (run_GPT_DDP env sched self world_size epochs bs l every))
                  = [Call_time, Call_spawn ''GPT_DDP'' (world_size, epochs, bs, l, every) world_size,
                     Call_time, Call_print_runtime ''''])"
proof -
  note b = spawn_contract[OF run_BERT_DDP_def[of env sched self world_size epochs bs l every]
      BERT_DDP_normal BERT_DDP_prefix assms]
  note g = spawn_contract[OF run_GPT_DDP_def[of env sched self world_size epochs bs l every]
      GPT_DDP_normal GPT_DDP_prefix assms]
  show ?thesis
    by (intro conjI b[THEN conjunct1] b[THEN conjunct2, THEN conjunct1]
        b[THEN conjunct2, THEN conjunct2, THEN conjunct1]
        b[THEN conjunct2, THEN conjunct2, THEN conjunct2]
        g[THEN conjunct1] g[THEN conjunct2, THEN conjunct1]
        g[THEN conjunct2, THEN conjunct2, THEN conjunct1]
        g[THEN conjunct2, THEN conjunct2, THEN conjunct2])
qed

theorem run_DDP_spawns_world_size_workers_witness:
  "(1::int) \<le> 2
   \<and> never_raises Main_process [] Call_time = None
   \<and> list_all (\<lambda>i. snd (BERT_DDP never_raises (Worker_process i) sample_BERT (int i) 2 1 8
                          (1 / 100000) 1) = Inr ()) [0..<nat 2]
   \<and> Call_print_runtime '''' \<in> set (fst (parent_run
         (run_BERT_DDP never_raises worker_1_in_train sample_BERT 2 1 8 (1 / 100000) 1)))
   \<and> int (length (worker_runs
         (run_BERT_DDP never_raises worker_1_in_train sample_BERT 2 1 8 (1 / 100000) 1))) = 2
   \<and> fst (parent_run (run_BERT_DDP never_raises worker_1_in_train sample_BERT 2 1 8 (1 / 100000) 1))
       = [Call_time, Call_spawn ''BERT_DDP'' (2, 1, 8, 1 / 100000, 1) 2, Call_time,
          Call_print_runtime '''']
   \<and> worker_runs (run_BERT_DDP never_raises worker_1_in_train sample_BERT 2 1 8 (1 / 100000) 1)
       = [(BERT_DDP_body sample_BERT 0 2 1 8 (1 / 100000) 1, Inr ()),
          (BERT_DDP_body sample_BERT 1 2 1 8 (1 / 100000) 1, Inr ())]
   \<and> list_all (\<lambda>i. snd (GPT_DDP never_raises (Worker_process i) sample_GPT (int i) 2 1 8
                          (1 / 100000) 1) = Inr ()) [0..<nat 2]
   \<and> Call_print_runtime '''' \<in> set (fst (parent_run
         (run_GPT_DDP never_raises worker_1_in_train sample_GPT 2 1 8 (1 / 100000) 1)))
   \<and> int (length (worker_runs
         (run_GPT_DDP never_raises worker_1_in_train sample_GPT 2 1 8 (1 / 100000) 1))) = 2
   \<and> fst (parent_run (run_GPT_DDP never_raises worker_1_in_train sample_GPT 2 1 8 (1 / 100000) 1))
       = [Call_time, Call_spawn ''GPT_DDP'' (2, 1, 8, 1 / 100000, 1) 2, Call_time,
          Call_print_runtime '''']
   \<and> worker_runs (run_GPT_DDP never_raises worker_1_in_train sample_GPT 2 1 8 (1 / 100000) 1)
       = [(GPT_DDP_body sample_GPT 0 2 1 8 (1 / 100000) 1, Inr ()),
          (GPT_DDP_body sample_GPT 1 2 1 8 (1 / 100000) 1, Inr ())]
   \<and> test_raises_in_worker_0 Main_process [] Call_time = None
   \<and> int (length (worker_runs (run_BERT_DDP test_raises_in_worker_0 worker_1_in_train
         sample_BERT 2 1 8 (1 / 100000) 1))) = 2
   \<and> (\<exists>k. fst (worker_runs (run_BERT_DDP test_raises_in_worker_0 worker_1_in_train
         sample_BERT 2 1 8 (1 / 100000) 1) ! 1)
       = take k (BERT_DDP_body sample_BERT (int 1) 2 1 8 (1 / 100000) 1))"
proof -
  have h: "(1::int) \<le> 2" by simp
  have t: "never_raises Main_process [] Call_time = None" by (simp add: never_raises_def)
  have ab: "list_all (\<lambda>i. snd (BERT_DDP never_raises (Worker_process i) sample_BERT (int i) 2 1 8
                          (1 / 100000) 1) = Inr ()) [0..<nat 2]"
    by (simp add: list_all_iff BERT_DDP_def BERT_DDP_body_def never_raises_def Let_def)
  have ag: "list_all (\<lambda>i. snd (GPT_DDP never_raises (Worker_process i) sample_GPT (int i) 2 1 8
                          (1 / 100000) 1) = Inr ()) [0..<nat 2]"
    by (simp add: list_all_iff GPT_DDP_def GPT_DDP_body_def never_raises_def Let_def)
  have pb: "Call_print_runtime '''' \<in> set (fst (parent_run
         (run_BERT_DDP never_raises worker_1_in_train sample_BERT 2 1 8 (1 / 100000) 1)))"
    by (simp add: sample_BERT_DDP_run)
  have pg: "Call_print_runtime '''' \<in> set (fst (parent_run
         (run_GPT_DDP never_raises worker_1_in_train sample_GPT 2 1 8 (1 / 100000) 1)))"
    by (simp add: sample_GPT_DDP_run)
  note thb = run_DDP_spawns_world_size_workers[OF h, of never_raises worker_1_in_train
      sample_BERT 1 8 "1 / 100000" 1]
  note thg = run_DDP_spawns_world_size_workers[OF h, of never_raises worker_1_in_train
      sample_GPT 1 8 "1 / 100000" 1]
  from thb t pb
  have b1: "int (length (worker_runs
         (run_BERT_DDP never_raises worker_1_in_train sample_BERT 2 1 8 (1 / 100000) 1))) = 2"
    and b2: "fst (parent_run (run_BERT_DDP never_raises worker_1_in_train sample_BERT 2 1 8 (1 / 100000) 1))
       = [Call_time, Call_spawn ''BERT_DDP'' (2, 1, 8, 1 / 100000, 1) 2, Call_time,
          Call_print_runtime '''']"
    and b3: "worker_runs (run_BERT_DDP never_raises worker_1_in_train sample_BERT 2 1 8 (1 / 100000) 1)
       = map (\<lambda>i. (BERT_DDP_body sample_BERT (int i) 2 1 8 (1 / 100000) 1, Inr ())) [0..<nat 2]"
    by blast+
  from thg t pg
  have g1: "int (length (worker_runs
         (run_GPT_DDP never_raises worker_1_in_train sample_GPT 2 1 8 (1 / 100000) 1))) = 2"
    and g2: "fst (parent_run (run_GPT_DDP never_raises worker_1_in_train sample_GPT 2 1 8 (1 / 100000) 1))
       = [Call_time, Call_spawn ''GPT_DDP'' (2, 1, 8, 1 / 100000, 1) 2, Call_time,
          Call_print_runtime '''']"
    and g3: "worker_runs (run_GPT_DDP never_raises worker_1_in_train sample_GPT 2 1 8 (1 / 100000) 1)
       = map (\<lambda>i. (GPT_DDP_body sample_GPT (int i) 2 1 8 (1 / 100000) 1, Inr ())) [0..<nat 2]"
    by blast+
  from b3 have b3': "worker_runs (run_BERT_DDP never_raises worker_1_in_train sample_BERT 2 1 8 (1 / 100000) 1)
       = [(BERT_DDP_body sample_BERT 0 2 1 8 (1 / 100000) 1, Inr ()),
          (BERT_DDP_body sample_BERT 1 2 1 8 (1 / 100000) 1, Inr ())]"
    by (simp add: upt_rec)
  from g3 have g3': "worker_runs (run_GPT_DDP never_raises worker_1_in_train sample_GPT 2 1 8 (1 / 100000) 1)
       = [(GPT_DDP_body sample_GPT 0 2 1 8 (1 / 100000) 1, Inr ()),
          (GPT_DDP_body sample_GPT 1 2 1 8 (1 / 100000) 1, Inr ())]"
    by (simp add: upt_rec)
  have t0: "test_raises_in_worker_0 Main_process [] Call_time = None"
    by (simp add: test_raises_in_worker_0_def)
  note thk = run_DDP_spawns_world_size_workers[OF h, of test_raises_in_worker_0
      worker_1_in_train sample_BERT 1 8 "1 / 100000" 1, THEN conjunct1, rule_format, OF t0]
  from thk have k1: "int (length (worker_runs (run_BERT_DDP test_raises_in_worker_0
         worker_1_in_train sample_BERT 2 1 8 (1 / 100000) 1))) = 2"
    by blast
  have "(1::nat) < nat 2" by simp
  with thk have k2: "\<exists>k. fst (worker_runs (run_BERT_DDP test_raises_in_worker_0 worker_1_in_train
         sample_BERT 2 1 8 (1 / 100000) 1) ! 1)
       = take k (BERT_DDP_body sample_BERT (int 1) 2 1 8 (1 / 100000) 1)"
    by blast
  show ?thesis by (intro conjI h t ab pb b1 b2 b3' ag pg g1 g2 g3' t0 k1 k2)
qed

section \<open>Parameter-efficient adaptation\<close>

text \<open>
  C8. In \<open>run_LLAMA\<close>, when the trainer is constructed, the calls made before it include
  the \<open>peft\<close> factory and then \<open>PEFTClassificationModel\<close> applied to the factory's
  model, and the trainer receives that wrapped model. In \<open>run_BERT\<close> and \<open>run_GPT\<close>
  the trainer receives the \<open>CustomClassificationModel\<close> built by the first call, and
  neither they nor the two worker functions ever call the \<open>peft\<close> factory or
  \<open>PEFTClassificationModel\<close>.
\<close>

theorem only_run_LLAMA_uses_peft:
  "(fst (run_LLAMA env self epochs bs l every gpu_id) = pre @ Call_TrainerSingle g m tr te va k # post
      \<longrightarrow> m = PEFTClassificationModel (peft_model (checkpoint self)) 3
        \<and> filter uses_peft pre
            = [Call_peft (checkpoint self),
               Call_PEFTClassificationModel (peft_model (checkpoint self)) 3])
   \<and> (fst (run_BERT env self epochs bs l every gpu_id) = pre @ Call_TrainerSingle g m tr te va k # post
      \<longrightarrow> m = CustomClassificationModel (checkpoint self) 3
        \<and> hd pre = Call_CustomClassificationModel (checkpoint self) 3)
   \<and> (fst (run_GPT env self epochs bs l every gpu_id) = pre @ Call_TrainerSingle g m tr te va k # post
      \<longrightarrow> m = CustomClassificationModel (checkpoint self) 3
        \<and> hd pre = Call_CustomClassificationModel (checkpoint self) 3)
   \<and> filter uses_peft (fst (run_BERT env self epochs bs l every gpu_id)) = []
   \<and> filter uses_peft (fst (run_GPT env self epochs bs l every gpu_id)) = []
   \<and> filter uses_peft (fst (BERT_DDP env p self rank ws epochs bs l every)) = []
   \<and> filter uses_peft (fst (GPT_DDP env p self rank ws epochs bs l every)) = []"
proof -
  have a: "fst (run_LLAMA env self epochs bs l every gpu_id) = pre @ Call_TrainerSingle g m tr te va k # post
      \<longrightarrow> m = PEFTClassificationModel (peft_model (checkpoint self)) 3
        \<and> filter uses_peft pre
            = [Call_peft (checkpoint self),
               Call_PEFTClassificationModel (peft_model (checkpoint self)) 3]"
  proof
    assume "fst (run_LLAMA env self epochs bs l every gpu_id) = pre @ Call_TrainerSingle g m tr te va k # post"
    then have "fst (exec env Main_process [] (run_LLAMA_body self epochs bs l every gpu_id))
                 = pre @ Call_TrainerSingle g m tr te va k # post"
      by (simp add: run_LLAMA_def)
    from exec_trace_is_prefix[OF this] obtain rest
      where "run_LLAMA_body self epochs bs l every gpu_id = pre @ Call_TrainerSingle g m tr te va k # rest"
      by blast
    from run_LLAMA_body_Trainer[OF this]
    show "m = PEFTClassificationModel (peft_model (checkpoint self)) 3
        \<and> filter uses_peft pre
            = [Call_peft (checkpoint self),
               Call_PEFTClassificationModel (peft_model (checkpoint self)) 3]"
      by simp
  qed
  have b: "fst (run_BERT env self epochs bs l every gpu_id) = pre @ Call_TrainerSingle g m tr te va k # post
      \<longrightarrow> m = CustomClassificationModel (checkpoint self) 3
        \<and> hd pre = Call_CustomClassificationModel (checkpoint self) 3"
  proof
    assume "fst (run_BERT env self epochs bs l every gpu_id) = pre @ Call_TrainerSingle g m tr te va k # post"
    then have "fst (exec env Main_process [] (run_BERT_body self epochs bs l every gpu_id))
                 = pre @ Call_TrainerSingle g m tr te va k # post"
      by (simp add: run_BERT_def)
    from exec_trace_is_prefix[OF this] obtain rest
      where "run_BERT_body self epochs bs l every gpu_id = pre @ Call_TrainerSingle g m tr te va k # rest"
      by blast
    from run_BERT_body_Trainer[OF this]
    show "m = CustomClassificationModel (checkpoint self) 3
        \<and> hd pre = Call_CustomClassificationModel (checkpoint self) 3"
      by simp
  qed
  have c: "fst (run_GPT env self epochs bs l every gpu_id) = pre @ Call_TrainerSingle g m tr te va k # post
      \<longrightarrow> m = CustomClassificationModel (checkpoint self) 3
        \<and> hd pre = Call_CustomClassificationModel (checkpoint self) 3"
  proof
    assume "fst (run_GPT env self epochs bs l every gpu_id) = pre @ Call_TrainerSingle g m tr te va k # post"
    then have "fst (exec env Main_process [] (run_GPT_body self epochs bs l every gpu_id))
                 = pre @ Call_TrainerSingle g m tr te va k # post"
      by (simp add: run_GPT_def)
    from exec_trace_is_prefix[OF this] obtain rest
      where "run_GPT_body self epochs bs l every gpu_id = pre @ Call_TrainerSingle g m tr te va k # rest"
      by blast
    from run_GPT_body_Trainer[OF this]
    show "m = CustomClassificationModel (checkpoint self) 3
        \<and> hd pre = Call_CustomClassificationModel (checkpoint self) 3"
      by simp
  qed
  have d: "filter uses_peft (fst (run_BERT env self epochs bs l every gpu_id)) = []"
    unfolding run_BERT_def by (rule exec_filter_absent) (simp add: run_BERT_body_def Let_def)
  have e: "filter uses_peft (fst (run_GPT env self epochs bs l every gpu_id)) = []"
    unfolding run_GPT_def by (rule exec_filter_absent) (simp add: run_GPT_body_def Let_def)
  have f: "filter uses_peft (fst (BERT_DDP env p self rank ws epochs bs l every)) = []"
    unfolding BERT_DDP_def by (rule exec_filter_absent) (simp add: BERT_DDP_body_def Let_def)
  have g: "filter uses_peft (fst (GPT_DDP env p self rank ws epochs bs l every)) = []"
    unfolding GPT_DDP_def by (rule exec_filter_absent) (simp add: GPT_DDP_body_def Let_def)
  from a b c d e f g show ?thesis by blast
qed

theorem only_run_LLAMA_uses_peft_witness:
  "fst (run_LLAMA never_raises sample_Llama 2 16 (1 / 50000) 1 0)
     = [Call_peft ''meta-llama/Llama-2-7b-hf'',
        Call_PEFTClassificationModel (peft_model ''meta-llama/Llama-2-7b-hf'') 3,
        Call_print_model (PEFTClassificationModel (peft_model ''meta-llama/Llama-2-7b-hf'') 3),
        Call_prepare_const 2 16 (1 / 50000) 1 ''Llama'']
       @ Call_TrainerSingle 0 (PEFTClassificationModel (peft_model ''meta-llama/Llama-2-7b-hf'') 3)
           ''train'' ''test'' ''val'' (prepare_const 2 16 (1 / 50000) 1 ''Llama'')
       # [Call_time, Call_train 2, Call_test (Str ''./trained_Llama/Nuclear_epoch4.pt''),
          Call_time, Call_print_runtime '' sec'']
   \<and> filter uses_peft
        [Call_peft ''meta-llama/Llama-2-7b-hf'',
         Call_PEFTClassificationModel (peft_model ''meta-llama/Llama-2-7b-hf'') 3,
         Call_print_model (PEFTClassificationModel (peft_model ''meta-llama/Llama-2-7b-hf'') 3),
         Call_prepare_const 2 16 (1 / 50000) 1 ''Llama'' :: string call]
       = [Call_peft (checkpoint sample_Llama),
          Call_PEFTClassificationModel (peft_model (checkpoint sample_Llama)) 3]
   \<and> fst (run_BERT never_raises sample_BERT 2 16 (1 / 50000) 1 0)
     = [Call_CustomClassificationModel ''bert-base-uncased'' 3,
        Call_prepare_const 2 16 (1 / 50000) 1 ''BERT'']
       @ Call_TrainerSingle 0 (CustomClassificationModel ''bert-base-uncased'' 3)
           ''train'' ''test'' ''val'' (prepare_const 2 16 (1 / 50000) 1 ''BERT'')
       # [Call_time, Call_train 2, Call_test (Path ''./trained_BERT/Nuclear_epoch1.pt''),
          Call_time, Call_print_runtime '''']
   \<and> CustomClassificationModel ''bert-base-uncased'' 3
       = CustomClassificationModel (checkpoint sample_BERT) 3
   \<and> fst (run_GPT never_raises sample_GPT 2 16 (1 / 50000) 1 0)
     = [Call_CustomClassificationModel ''gpt2'' 3,
        Call_prepare_const 2 16 (1 / 50000) 1 ''GPT2'']
       @ Call_TrainerSingle 0 (CustomClassificationModel ''gpt2'' 3)
           ''train'' ''test'' ''val'' (prepare_const 2 16 (1 / 50000) 1 ''GPT2'')
       # [Call_time, Call_train 2, Call_test (Path ''./trained_GPT2/Nuclear_epoch1.pt''),
          Call_time, Call_print_runtime '''']
   \<and> CustomClassificationModel ''gpt2'' 3 = CustomClassificationModel (checkpoint sample_GPT) 3"
proof -
  let ?preL = "[Call_peft ''meta-llama/Llama-2-7b-hf'',
        Call_PEFTClassificationModel (peft_model ''meta-llama/Llama-2-7b-hf'') 3,
        Call_print_model (PEFTClassificationModel (peft_model ''meta-llama/Llama-2-7b-hf'') 3),
        Call_prepare_const 2 16 (1 / 50000) 1 ''Llama''] :: string call list"
  let ?postL = "[Call_time, Call_train 2, Call_test (Str ''./trained_Llama/Nuclear_epoch4.pt''),
          Call_time, Call_print_runtime '' sec''] :: string call list"
  have l: "fst (run_LLAMA never_raises sample_Llama 2 16 (1 / 50000) 1 0)
     = ?preL @ Call_TrainerSingle 0 (PEFTClassificationModel (peft_model ''meta-llama/Llama-2-7b-hf'') 3)
           ''train'' ''test'' ''val'' (prepare_const 2 16 (1 / 50000) 1 ''Llama'') # ?postL"
    by (simp add: run_LLAMA_def run_LLAMA_body_def never_raises_def prepare_const_def Let_def
        sample_Llama_def)
  let ?preB = "[Call_CustomClassificationModel ''bert-base-uncased'' 3,
        Call_prepare_const 2 16 (1 / 50000) 1 ''BERT''] :: string call list"
  let ?postB = "[Call_time, Call_train 2, Call_test (Path ''./trained_BERT/Nuclear_epoch1.pt''),
          Call_time, Call_print_runtime ''''] :: string call list"
  have b: "fst (run_BERT never_raises sample_BERT 2 16 (1 / 50000) 1 0)
     = ?preB @ Call_TrainerSingle 0 (CustomClassificationModel ''bert-base-uncased'' 3)
           ''train'' ''test'' ''val'' (prepare_const 2 16 (1 / 50000) 1 ''BERT'') # ?postB"
    by (simp add: run_BERT_def run_BERT_body_def never_raises_def prepare_const_def Let_def
        sample_BERT_def str_int_def str_nat.simps)
  let ?preG = "[Call_CustomClassificationModel ''gpt2'' 3,
        Call_prepare_const 2 16 (1 / 50000) 1 ''GPT2''] :: string call list"
  have g: "fst (run_GPT never_raises sample_GPT 2 16 (1 / 50000) 1 0)
     = ?preG @ Call_TrainerSingle 0 (CustomClassificationModel ''gpt2'' 3)
           ''train'' ''test'' ''val'' (prepare_const 2 16 (1 / 50000) 1 ''GPT2'')
       # [Call_time, Call_train 2, Call_test (Path ''./trained_GPT2/Nuclear_epoch1.pt''),
          Call_time, Call_print_runtime '''']"
    by (simp add: run_GPT_def run_GPT_body_def never_raises_def prepare_const_def Let_def
        sample_GPT_def str_int_def str_nat.simps)
  from only_run_LLAMA_uses_peft[of never_raises sample_Llama 2 16 "1 / 50000" 1 0 ?preL] l
  have cl: "filter uses_peft ?preL
       = [Call_peft (checkpoint sample_Llama),
          Call_PEFTClassificationModel (peft_model (checkpoint sample_Llama)) 3]"
    by blast
  from only_run_LLAMA_uses_peft[of never_raises sample_BERT 2 16 "1 / 50000" 1 0 ?preB] b
  have cb: "CustomClassificationModel ''bert-base-uncased'' 3
       = CustomClassificationModel (checkpoint sample_BERT) 3"
    by blast
  from only_run_LLAMA_uses_peft[of never_raises sample_GPT 2 16 "1 / 50000" 1 0 ?preG] g
  have cg: "CustomClassificationModel ''gpt2'' 3 = CustomClassificationModel (checkpoint sample_GPT) 3"
    by blast
  from l b g cl cb cg show ?thesis by blast
qed

section \<open>The number of classes\<close>

text \<open>
  C10. Whatever the wrapper's datasets hold, every run method and worker function hands
  the class count 3 to the one classification-model constructor it calls. (In
  \<open>run_LLAMA\<close> that constructor is reached when the \<open>peft\<close> factory returns.)
\<close>

theorem num_class_is_three:
  "classes_built (fst (run_BERT env self epochs bs l every gpu_id)) = [3]
   \<and> classes_built (fst (BERT_DDP env p self rank ws epochs bs l every)) = [3]
   \<and> classes_built (fst (run_GPT env self epochs bs l every gpu_id)) = [3]
   \<and> classes_built (fst (GPT_DDP env p self rank ws epochs bs l every)) = [3]
   \<and> classes_built (fst (run_LLAMA env self epochs bs l every gpu_id))
       = (if env Main_process [] (Call_peft (checkpoint self)) = None then [3] else [])"
proof -
  have 1: "classes_built (fst (run_BERT env self epochs bs l every gpu_id)) = [3]"
    by (simp add: run_BERT_def run_BERT_body_def Let_def split: option.splits)
  have 2: "classes_built (fst (BERT_DDP env p self rank ws epochs bs l every)) = [3]"
    by (simp add: BERT_DDP_def BERT_DDP_body_def Let_def split: option.splits)
  have 3: "classes_built (fst (run_GPT env self epochs bs l every gpu_id)) = [3]"
    by (simp add: run_GPT_def run_GPT_body_def Let_def split: option.splits)
  have 4: "classes_built (fst (GPT_DDP env p self rank ws epochs bs l every)) = [3]"
    by (simp add: GPT_DDP_def GPT_DDP_body_def Let_def split: option.splits)
  have 5: "classes_built (fst (run_LLAMA env self epochs bs l every gpu_id))
       = (if env Main_process [] (Call_peft (checkpoint self)) = None then [3] else [])"
    by (simp add: run_LLAMA_def run_LLAMA_body_def Let_def split: option.splits)
  from 1 2 3 4 5 show ?thesis by blast
qed

section \<open>Exceptions\<close>



end
